theory Spec2Isabelle
  imports Main "HOL-Library.Word"
begin

unbundle bit_operations_syntax

section \<open>JavaScript integer operators\<close>

text \<open>
  The operators \<^verbatim>\<open>>>\<close>, \<^verbatim>\<open><<\<close> and \<^verbatim>\<open>&\<close> of JavaScript first convert their operands to
  signed 32-bit integers (ToInt32), work on the two's complement bits and give a signed
  32-bit result; the shift count is taken modulo 32. Code points and UTF-16 code units are
  modelled as \<open>int\<close>.
\<close>

definition toInt32 :: "int \<Rightarrow> int" where
  "toInt32 x = sint (word_of_int x :: 32 word)"

definition js_sar :: "int \<Rightarrow> nat \<Rightarrow> int" where
  "js_sar x n = drop_bit (n mod 32) (toInt32 x)"

definition js_shl :: "int \<Rightarrow> nat \<Rightarrow> int" where
  "js_shl x n = toInt32 (push_bit (n mod 32) (toInt32 x))"

definition js_and :: "int \<Rightarrow> int \<Rightarrow> int" where
  "js_and x y = toInt32 (toInt32 x AND toInt32 y)"

section \<open>Default-ignorable classification\<close>

text \<open>
  \<^verbatim>\<open>isDefaultIgnorable(ch)\<close>, LayoutEngine.js lines 173-199: the outer test on the plane
  \<^verbatim>\<open>ch >> 16\<close>, then a switch on the high byte \<^verbatim>\<open>ch >> 8\<close> (plane 0) or on the plane.
\<close>

definition isDefaultIgnorable :: "int \<Rightarrow> bool" where
  "isDefaultIgnorable ch =
     (let plane = js_sar ch 16 in
      if plane = 0 then
        (let hi = js_sar ch 8 in
         if hi = 0x00 then ch = 0x00AD
         else if hi = 0x03 then ch = 0x034F
         else if hi = 0x06 then ch = 0x061C
         else if hi = 0x17 then 0x17B4 \<le> ch \<and> ch \<le> 0x17B5
         else if hi = 0x18 then 0x180B \<le> ch \<and> ch \<le> 0x180E
         else if hi = 0x20 then (0x200B \<le> ch \<and> ch \<le> 0x200F) \<or> (0x202A \<le> ch \<and> ch \<le> 0x202E)
                                 \<or> (0x2060 \<le> ch \<and> ch \<le> 0x206F)
         else if hi = 0xFE then (0xFE00 \<le> ch \<and> ch \<le> 0xFE0F) \<or> ch = 0xFEFF
         else if hi = 0xFF then 0xFFF0 \<le> ch \<and> ch \<le> 0xFFF8
         else False)
      else
        (if plane = 0x01 then (0x1BCA0 \<le> ch \<and> ch \<le> 0x1BCA3) \<or> (0x1D173 \<le> ch \<and> ch \<le> 0x1D17A)
         else if plane = 0x0E then 0xE0000 \<le> ch \<and> ch \<le> 0xE0FFF
         else False))"

section \<open>Data model\<close>

text \<open>
  The classes GlyphRun, GlyphPosition, GlyphInfo, the font object and the two shaping
  engines are imported by LayoutEngine.js and are not part of the sources; they appear here
  as records holding what LayoutEngine.js reads and writes.
\<close>

text \<open>A renderable glyph object as returned by \<^verbatim>\<open>font.getGlyph\<close> and \<^verbatim>\<open>font.glyphForCodePoint\<close>.\<close>

record Glyph =
  glyph_id :: nat
  glyph_advanceWidth :: int

text \<open>
  \<^verbatim>\<open>new GlyphInfo(font, id, codePoints, stringIndex)\<close> (lines 112 and 115): the glyph id, the one
  or two source code points, and the recorded text offset. The field \<^verbatim>\<open>id\<close> is named \<open>gid\<close>.
\<close>

record GlyphInfo =
  gid :: nat
  codePoints :: "int list"
  stringIndex :: int

record GlyphPosition =
  xAdvance :: int
  yAdvance :: int
  xOffset :: int
  yOffset :: int

text \<open>
  Modelled from the spec: the GlyphPosition constructor (GlyphPosition.js is not under src/).
  Section 4.3: initial positions derive the advance width only, with zero offsets.
\<close>

definition GlyphPosition_new :: "int \<Rightarrow> GlyphPosition" where
  "GlyphPosition_new advanceWidth = \<lparr>xAdvance = advanceWidth, yAdvance = 0, xOffset = 0, yOffset = 0\<rparr>"

text \<open>
  The font: the code point map (\<^verbatim>\<open>font._cmapProcessor.lookup\<close>, called with one code point or
  with a base and a variation selector), the glyph lookups, the advance width read from a
  GlyphInfo at line 134, and the presence of the tables \<^verbatim>\<open>morx\<close>, \<^verbatim>\<open>GSUB\<close>, \<^verbatim>\<open>GPOS\<close>, \<^verbatim>\<open>kern\<close>.
\<close>

record Font =
  cmap_lookup :: "int \<Rightarrow> int option \<Rightarrow> nat"
  glyphForCodePoint :: "int \<Rightarrow> Glyph"
  getGlyph :: "nat \<Rightarrow> Glyph"
  infoAdvanceWidth :: "GlyphInfo \<Rightarrow> int"
  morx :: bool
  GSUB :: bool
  GPOS :: bool
  kern :: bool

text \<open>
  The glyph run. \<open>positions\<close> and \<open>stringIndices\<close> are \<open>None\<close> until LayoutEngine.js assigns
  them; \<open>features\<close> maps a feature tag to its toggle. The glyph sequence holds GlyphInfo
  objects during layout and Glyph objects after the final mapping of line 68.
\<close>

record 'g GlyphRun =
  glyphs :: "'g list"
  features :: "string \<rightharpoonup> bool"
  script :: string
  language :: "string option"
  direction :: "string option"
  positions :: "GlyphPosition list option"
  stringIndices :: "int list option"

text \<open>The \<^verbatim>\<open>features\<close> argument of \<^verbatim>\<open>layout\<close>: a script tag in its place, an array of tags, an
  object of toggles, or nothing.\<close>

datatype featuresArg =
  FeaturesString string
  | FeaturesArray "string list"
  | FeaturesObject "string \<rightharpoonup> bool"
  | FeaturesUndefined

text \<open>
  Modelled from the spec: the GlyphRun constructor (GlyphRun.js is not under src/). Section 3
  lists the fields and section 6 the feature configuration, a mapping from feature tag to
  enabled or disabled (the tags of an array are enabled). The constructor receives the
  glyphs, features, script, language and direction only: the position and source-offset
  sequences are assigned later, by \<^verbatim>\<open>layout\<close> and \<^verbatim>\<open>position\<close>.
\<close>

definition featureToggles :: "featuresArg \<Rightarrow> (string \<rightharpoonup> bool)" where
  "featureToggles fa =
     (case fa of
        FeaturesArray tags \<Rightarrow> map_of (map (\<lambda>tag. (tag, True)) tags)
      | FeaturesObject m \<Rightarrow> m
      | _ \<Rightarrow> Map.empty)"

definition GlyphRun_new ::
  "'g list \<Rightarrow> featuresArg \<Rightarrow> string \<Rightarrow> string option \<Rightarrow> string option \<Rightarrow> 'g GlyphRun" where
  "GlyphRun_new gs fa sc la di =
     \<lparr>glyphs = gs, features = featureToggles fa, script = sc, language = la, direction = di,
      positions = None, stringIndices = None\<rparr>"

text \<open>
  Modelled from the spec: the shaping backend (AATLayoutEngine.js and OTLayoutEngine.js are not
  under src/). Section 6: every operation but the feature query is optional; \<^verbatim>\<open>setup(run)\<close>
  prepares the backend; \<^verbatim>\<open>substitute(run)\<close> replaces the glyph sequence, of any length;
  \<^verbatim>\<open>position(run)\<close> changes the positions and returns the set of feature tags it applied, or
  nothing; \<^verbatim>\<open>cleanup()\<close>; \<^verbatim>\<open>fallbackPosition\<close> declares that the backend wants supplementary
  positioning. \<open>'s\<close> is the backend's private state.
\<close>

record 's Engine =
  setupOp :: "('s \<Rightarrow> GlyphInfo GlyphRun \<Rightarrow> 's) option"
  substituteOp :: "('s \<Rightarrow> GlyphInfo GlyphRun \<Rightarrow> 's \<times> GlyphInfo list) option"
  positionOp :: "('s \<Rightarrow> GlyphInfo GlyphRun \<Rightarrow> 's \<times> GlyphPosition list \<times> string list option) option"
  cleanupOp :: "('s \<Rightarrow> 's) option"
  fallbackPosition :: bool
  engineFeatures :: "'s \<Rightarrow> string option \<Rightarrow> string option \<Rightarrow> string list"

text \<open>
  The LayoutEngine object (constructor, lines 12-25): the font, the selected backend if any,
  and the two lazily built fallback components (\<open>False\<close> while the field is \<^verbatim>\<open>null\<close>).
\<close>

record 's LayoutEngine =
  font :: Font
  engine :: "'s Engine option"
  engineState :: 's
  unicodeLayoutEngine :: bool
  kernProcessor :: bool

text \<open>
  The constructor's choice of backend (lines 19-24), given the two backends the font would
  get: the \<^verbatim>\<open>morx\<close> table first, then \<^verbatim>\<open>GSUB\<close> or \<^verbatim>\<open>GPOS\<close>, else none.
\<close>

definition LayoutEngine_new :: "Font \<Rightarrow> 's Engine \<Rightarrow> 's Engine \<Rightarrow> 's \<Rightarrow> 's LayoutEngine" where
  "LayoutEngine_new fnt aat ot st =
     \<lparr>font = fnt,
      engine = (if morx fnt then Some aat else if GSUB fnt \<or> GPOS fnt then Some ot else None),
      engineState = st, unicodeLayoutEngine = False, kernProcessor = False\<rparr>"

text \<open>
  The other collaborators, taken as parameters: \<^verbatim>\<open>Script.forString\<close>,
  \<^verbatim>\<open>UnicodeLayoutEngine.positionGlyphs\<close> and \<^verbatim>\<open>KernProcessor.process\<close>. The last two adjust the
  position sequence they are given.
\<close>

record Collaborators =
  forString :: "16 word list \<Rightarrow> string"
  positionGlyphs :: "GlyphInfo list \<Rightarrow> GlyphPosition list \<Rightarrow> GlyphPosition list"
  kernProcess :: "GlyphInfo list \<Rightarrow> GlyphPosition list \<Rightarrow> GlyphPosition list"

text \<open>The operations of collaborators that a call invoked, in order; a position call is
  recorded with the feature set it returned.\<close>

datatype call =
  CallSetup
  | CallSubstitute
  | CallPosition "string list option"
  | CallFallbackMark
  | CallLegacyKern
  | CallCleanup

datatype error = TypeError

section \<open>The cluster builder\<close>

text \<open>
  A JavaScript string is a sequence of 16-bit code units. \<^verbatim>\<open>charCodeAt\<close> is only called under
  the guard \<^verbatim>\<open>idx < len\<close>.
\<close>

definition charCodeAt :: "16 word list \<Rightarrow> nat \<Rightarrow> int" where
  "charCodeAt string i = uint (string ! i)"

text \<open>Line 100: the scalar value of a surrogate pair.\<close>

definition surrogatePair :: "int \<Rightarrow> int \<Rightarrow> int" where
  "surrogatePair code next = js_shl (js_and code 0x3ff) 10 + js_and next 0x3ff + 0x10000"

text \<open>Lines 95-102: decode the code point at \<open>idx\<close>; the result is the code point and the
  index after it.\<close>

definition decodeAt :: "16 word list \<Rightarrow> nat \<Rightarrow> int \<times> nat" where
  "decodeAt string idx =
     (let code = charCodeAt string idx; idx1 = idx + 1 in
      if 0xd800 \<le> code \<and> code \<le> 0xdbff \<and> idx1 < length string then
        (let next = charCodeAt string idx1 in
         if 0xdc00 \<le> next \<and> next \<le> 0xdfff then (surrogatePair code next, idx1 + 1)
         else (code, idx1))
      else (code, idx1))"

text \<open>Line 105: 1 if the code point is a variation selector, 0 otherwise.\<close>

definition variationState :: "int \<Rightarrow> int" where
  "variationState code =
     (if (0xfe00 \<le> code \<and> code \<le> 0xfe0f) \<or> (0xe0100 \<le> code \<and> code \<le> 0xe01ef) then 1 else 0)"

text \<open>Lines 89-108: what one iteration reads: the code point, the next state and the next
  index; past the end of the string, code 0 and state 0.\<close>

definition scan :: "16 word list \<Rightarrow> nat \<Rightarrow> int \<times> int \<times> nat" where
  "scan string idx =
     (if idx < length string then
        (let code = fst (decodeAt string idx) in (code, variationState code, snd (decodeAt string idx)))
      else (0, 0, idx + 1))"

text \<open>Lines 110-116: what one iteration appends to \<^verbatim>\<open>glyphs\<close>.\<close>

definition emit :: "Font \<Rightarrow> int \<Rightarrow> int \<Rightarrow> int \<Rightarrow> int \<Rightarrow> int \<Rightarrow> GlyphInfo list \<Rightarrow> GlyphInfo list" where
  "emit fnt state lastc code nextState sIndex gs =
     (if state = 0 \<and> nextState = 1 then
        gs @ [\<lparr>gid = cmap_lookup fnt lastc (Some code), codePoints = [lastc, code], stringIndex = sIndex\<rparr>]
      else if state = 0 \<and> nextState = 0 then
        gs @ [\<lparr>gid = cmap_lookup fnt lastc None, codePoints = [lastc], stringIndex = sIndex\<rparr>]
      else gs)"

text \<open>The loop of lines 88-120, from the state \<^verbatim>\<open>idx\<close>, \<^verbatim>\<open>last\<close>, \<^verbatim>\<open>state\<close>, \<^verbatim>\<open>glyphs\<close>;
  \<^verbatim>\<open>stringIndex\<close> is \<^verbatim>\<open>idx - 1\<close>, taken before the code point is decoded.\<close>

function glyphsLoop ::
  "Font \<Rightarrow> 16 word list \<Rightarrow> nat \<Rightarrow> int \<Rightarrow> int \<Rightarrow> GlyphInfo list \<Rightarrow> GlyphInfo list" where
  "glyphsLoop fnt string idx lastc state gs =
     (if idx \<le> length string then
        (let sIndex = int idx - 1;
             code = fst (scan string idx);
             nextState = fst (snd (scan string idx))
         in glyphsLoop fnt string (snd (snd (scan string idx))) code nextState
              (emit fnt state lastc code nextState sIndex gs))
      else gs)"
  by pat_completeness auto
termination
  by (relation "measure (\<lambda>(fnt, string, idx, lastc, state, gs). Suc (length string) - idx)")
     (auto simp: scan_def decodeAt_def Let_def)

declare glyphsLoop.simps [simp del]

definition glyphsForString :: "Font \<Rightarrow> 16 word list \<Rightarrow> GlyphInfo list" where
  "glyphsForString fnt string = glyphsLoop fnt string 0 (- 1) (- 1) []"

section \<open>Substitution and positioning\<close>

text \<open>\<^verbatim>\<open>substitute(glyphRun)\<close>, lines 125-130.\<close>

definition substitute ::
  "'s LayoutEngine \<Rightarrow> GlyphInfo GlyphRun \<Rightarrow> 's LayoutEngine \<times> GlyphInfo GlyphRun \<times> call list" where
  "substitute L glyphRun =
     (case engine L of
        None \<Rightarrow> (L, glyphRun, [])
      | Some e \<Rightarrow>
          (case substituteOp e of
             None \<Rightarrow> (L, glyphRun, [])
           | Some f \<Rightarrow>
               (case f (engineState L) glyphRun of
                  (st, gs) \<Rightarrow> (L\<lparr>engineState := st\<rparr>, glyphRun\<lparr>glyphs := gs\<rparr>, [CallSubstitute]))))"

text \<open>Lines 135-140: call the backend's position operation, if there is one; \<open>positioned\<close> is
  what it returned, \<open>None\<close> for \<^verbatim>\<open>null\<close>.\<close>

definition enginePosition ::
  "'s LayoutEngine \<Rightarrow> GlyphInfo GlyphRun \<Rightarrow>
     's LayoutEngine \<times> GlyphInfo GlyphRun \<times> string list option \<times> call list" where
  "enginePosition L glyphRun =
     (case engine L of
        None \<Rightarrow> (L, glyphRun, None, [])
      | Some e \<Rightarrow>
          (case positionOp e of
             None \<Rightarrow> (L, glyphRun, None, [])
           | Some f \<Rightarrow>
               (case f (engineState L) glyphRun of
                  (st, ps, positioned) \<Rightarrow>
                    (L\<lparr>engineState := st\<rparr>, glyphRun\<lparr>positions := Some ps\<rparr>, positioned,
                     [CallPosition positioned]))))"

text \<open>Line 143: \<^verbatim>\<open>!positioned && (!this.engine || this.engine.fallbackPosition)\<close>.\<close>

definition wantsFallback :: "'s LayoutEngine \<Rightarrow> string list option \<Rightarrow> bool" where
  "wantsFallback L positioned =
     (positioned = None \<and> (case engine L of None \<Rightarrow> True | Some e \<Rightarrow> fallbackPosition e))"

text \<open>Line 152:
  \<^verbatim>\<open>(!positioned || !positioned.kern) && glyphRun.features.kern !== false && this.font.kern\<close>.\<close>

definition wantsKern :: "'s LayoutEngine \<Rightarrow> GlyphInfo GlyphRun \<Rightarrow> string list option \<Rightarrow> bool" where
  "wantsKern L glyphRun positioned =
     ((case positioned of None \<Rightarrow> True | Some tags \<Rightarrow> ''kern'' \<notin> set tags)
      \<and> features glyphRun ''kern'' \<noteq> Some False \<and> kern (font L))"

text \<open>Reading the position array of a run; a run whose array is still \<^verbatim>\<open>null\<close> has no
  entries.\<close>

definition positionsOf :: "'g GlyphRun \<Rightarrow> GlyphPosition list" where
  "positionsOf glyphRun = (case positions glyphRun of None \<Rightarrow> [] | Some ps \<Rightarrow> ps)"

text \<open>\<^verbatim>\<open>position(glyphRun)\<close>, lines 132-160.\<close>

definition position ::
  "Collaborators \<Rightarrow> 's LayoutEngine \<Rightarrow> GlyphInfo GlyphRun \<Rightarrow>
     's LayoutEngine \<times> GlyphInfo GlyphRun \<times> call list" where
  "position X L glyphRun =
     (let run0 = glyphRun\<lparr>positions :=
                   Some (map (\<lambda>glyph. GlyphPosition_new (infoAdvanceWidth (font L) glyph)) (glyphs glyphRun))\<rparr>
      in case enginePosition L run0 of
        (L1, run1, positioned, log1) \<Rightarrow>
          (let (L2, run2, log2) =
                 (if wantsFallback L1 positioned then
                    (L1\<lparr>unicodeLayoutEngine := True\<rparr>,
                     run1\<lparr>positions := Some (positionGlyphs X (glyphs run1) (positionsOf run1))\<rparr>,
                     [CallFallbackMark])
                  else (L1, run1, []));
               (L3, run3, log3) =
                 (if wantsKern L2 run2 positioned then
                    (L2\<lparr>kernProcessor := True\<rparr>,
                     run2\<lparr>positions := Some (kernProcess X (glyphs run2) (positionsOf run2)),
                          features := (features run2)(''kern'' \<mapsto> True)\<rparr>,
                     [CallLegacyKern])
                  else (L2, run2, []))
           in (L3, run3, log1 @ log2 @ log3)))"

section \<open>Hiding default-ignorable characters\<close>

text \<open>Line 165: \<^verbatim>\<open>isDefaultIgnorable(glyphs[i].codePoints[0])\<close>. For an empty code point list the
  argument is \<^verbatim>\<open>undefined\<close>, whose shifts are 0 and which is not equal to U+00AD: false.\<close>

definition ignorableGlyph :: "GlyphInfo \<Rightarrow> bool" where
  "ignorableGlyph g = (case codePoints g of [] \<Rightarrow> False | ch # _ \<Rightarrow> isDefaultIgnorable ch)"

text \<open>The loop of lines 164-170 from index \<open>i\<close>. Writing \<^verbatim>\<open>positions[i].xAdvance\<close> where the
  position array has no entry \<open>i\<close> raises a TypeError.\<close>

function hideLoop ::
  "nat \<Rightarrow> nat \<Rightarrow> GlyphInfo list \<Rightarrow> GlyphPosition list \<Rightarrow>
     error + (GlyphInfo list \<times> GlyphPosition list)" where
  "hideLoop spaceId i gs ps =
     (if i < length gs then
        (if ignorableGlyph (gs ! i) then
           (if i < length ps then
              hideLoop spaceId (Suc i) (gs[i := (gs ! i)\<lparr>gid := spaceId\<rparr>])
                (ps[i := (ps ! i)\<lparr>xAdvance := 0, yAdvance := 0\<rparr>])
            else Inl TypeError)
         else hideLoop spaceId (Suc i) gs ps)
      else Inr (gs, ps))"
  by pat_completeness auto
termination
  by (relation "measure (\<lambda>(spaceId, i, gs, ps). length gs - i)") auto

declare hideLoop.simps [simp del]

text \<open>\<^verbatim>\<open>hideDefaultIgnorables(glyphs, positions)\<close>, lines 162-171.\<close>

definition hideDefaultIgnorables ::
  "Font \<Rightarrow> GlyphInfo list \<Rightarrow> GlyphPosition list \<Rightarrow> error + (GlyphInfo list \<times> GlyphPosition list)" where
  "hideDefaultIgnorables fnt gs ps =
     (let space = glyphForCodePoint fnt 0x20 in hideLoop (glyph_id space) 0 gs ps)"

section \<open>The layout call\<close>

text \<open>Lines 50-53 and 61-64: the optional setup and cleanup of the backend.\<close>

definition engineSetup ::
  "'s LayoutEngine \<Rightarrow> GlyphInfo GlyphRun \<Rightarrow> 's LayoutEngine \<times> call list" where
  "engineSetup L glyphRun =
     (case engine L of
        None \<Rightarrow> (L, [])
      | Some e \<Rightarrow>
          (case setupOp e of
             None \<Rightarrow> (L, [])
           | Some f \<Rightarrow> (L\<lparr>engineState := f (engineState L) glyphRun\<rparr>, [CallSetup])))"

definition engineCleanup :: "'s LayoutEngine \<Rightarrow> 's LayoutEngine \<times> call list" where
  "engineCleanup L =
     (case engine L of
        None \<Rightarrow> (L, [])
      | Some e \<Rightarrow>
          (case cleanupOp e of
             None \<Rightarrow> (L, [])
           | Some f \<Rightarrow> (L\<lparr>engineState := f (engineState L)\<rparr>, [CallCleanup])))"

text \<open>Lines 66-69: the source offsets, then the glyph objects.\<close>

definition finalMapping :: "Font \<Rightarrow> GlyphInfo GlyphRun \<Rightarrow> Glyph GlyphRun" where
  "finalMapping fnt glyphRun =
     \<lparr>glyphs = map (\<lambda>glyphInfo. getGlyph fnt (gid glyphInfo)) (glyphs glyphRun),
      features = features glyphRun, script = script glyphRun, language = language glyphRun,
      direction = direction glyphRun, positions = positions glyphRun,
      stringIndices = Some (map stringIndex (glyphs glyphRun))\<rparr>"

text \<open>Lines 45-48: the run returned when there are no glyphs.\<close>

definition emptyRun :: "GlyphInfo GlyphRun \<Rightarrow> Glyph GlyphRun" where
  "emptyRun glyphRun =
     \<lparr>glyphs = [], features = features glyphRun, script = script glyphRun,
      language = language glyphRun, direction = direction glyphRun, positions = Some [],
      stringIndices = stringIndices glyphRun\<rparr>"

text \<open>Lines 28-34: the \<^verbatim>\<open>features\<close> parameter is optional; a string in its place is the script,
  and the later arguments move up by one.\<close>

definition layoutArgs ::
  "featuresArg \<Rightarrow> string option \<Rightarrow> string option \<Rightarrow> string option \<Rightarrow>
     featuresArg \<times> string option \<times> string option \<times> string option" where
  "layoutArgs fa sc la di =
     (case fa of
        FeaturesString tag \<Rightarrow> (FeaturesArray [], Some tag, sc, la)
      | _ \<Rightarrow> (fa, sc, la, di))"

text \<open>
  \<^verbatim>\<open>layout(string, features, script, language, direction)\<close>, lines 27-70. The result is the
  engine afterwards, the collaborator operations invoked, and the run or the error raised.
\<close>

definition layout ::
  "Collaborators \<Rightarrow> 's LayoutEngine \<Rightarrow> 16 word list \<Rightarrow> featuresArg \<Rightarrow> string option \<Rightarrow>
     string option \<Rightarrow> string option \<Rightarrow>
     's LayoutEngine \<times> call list \<times> (error + Glyph GlyphRun)" where
  "layout X L string fa sc la di =
     (case layoutArgs fa sc la di of
        (fa1, sc1, la1, di1) \<Rightarrow>
          (let sc2 = (case sc1 of None \<Rightarrow> forString X string | Some tag \<Rightarrow> tag);
               gs = glyphsForString (font L) string;
               glyphRun = GlyphRun_new gs fa1 sc2 la1 di1
           in if length gs = 0 then (L, [], Inr (emptyRun glyphRun))
              else
                (case engineSetup L glyphRun of
                   (L1, log1) \<Rightarrow>
                     (case substitute L1 glyphRun of
                        (L2, run2, log2) \<Rightarrow>
                          (case position X L2 run2 of
                             (L3, run3, log3) \<Rightarrow>
                               (case hideDefaultIgnorables (font L3) (glyphs run3) (positionsOf run3) of
                                  Inl e \<Rightarrow> (L3, log1 @ log2 @ log3, Inl e)
                                | Inr (gs4, ps4) \<Rightarrow>
                                    (case engineCleanup L3 of
                                       (L5, log5) \<Rightarrow>
                                         (L5, log1 @ log2 @ log3 @ log5,
                                          Inr (finalMapping (font L5)
                                                 (run3\<lparr>glyphs := gs4, positions := Some ps4\<rparr>))))))))))"

section \<open>Feature enumeration\<close>

text \<open>\<^verbatim>\<open>getAvailableFeatures(script, language)\<close>, lines 201-213.\<close>

definition getAvailableFeatures ::
  "'s LayoutEngine \<Rightarrow> string option \<Rightarrow> string option \<Rightarrow> string list" where
  "getAvailableFeatures L sc la =
     (let fs = (case engine L of
                  None \<Rightarrow> []
                | Some e \<Rightarrow> engineFeatures e (engineState L) sc la)
      in if kern (font L) \<and> ''kern'' \<notin> set fs then fs @ [''kern''] else fs)"

section \<open>Vocabulary of the properties\<close>

text \<open>
  The code points of a string with the offsets at which they start, as lines 95-102 decode
  them: a high surrogate directly followed by a low surrogate is one code point, any other
  code unit stands for itself. \<open>codepointsFrom i s\<close> reads \<open>s\<close> as the part of a string that
  starts at offset \<open>i\<close>.
\<close>

fun codepointsFrom :: "nat \<Rightarrow> 16 word list \<Rightarrow> (int \<times> nat) list" where
  "codepointsFrom i [] = []"
| "codepointsFrom i [u] = [(uint u, i)]"
| "codepointsFrom i (u # v # r) =
     (if 0xd800 \<le> uint u \<and> uint u \<le> 0xdbff \<and> 0xdc00 \<le> uint v \<and> uint v \<le> 0xdfff
      then (surrogatePair (uint u) (uint v), i) # codepointsFrom (i + 2) r
      else (uint u, i) # codepointsFrom (i + 1) (v # r))"

text \<open>The code points alone.\<close>

fun codepoints :: "16 word list \<Rightarrow> int list" where
  "codepoints [] = []"
| "codepoints [u] = [uint u]"
| "codepoints (u # v # r) =
     (if 0xd800 \<le> uint u \<and> uint u \<le> 0xdbff \<and> 0xdc00 \<le> uint v \<and> uint v \<le> 0xdfff
      then surrogatePair (uint u) (uint v) # codepoints r
      else uint u # codepoints (v # r))"

text \<open>
  The units the loop appends for a sequence of code points still to be read, each with the
  offset where it starts, from the state \<open>state\<close>, \<open>lastc\<close>: one iteration per code point and
  the final iteration past the end, whose \<^verbatim>\<open>stringIndex\<close> is \<open>endIndex\<close>.
\<close>

fun units :: "Font \<Rightarrow> int \<Rightarrow> int \<Rightarrow> int \<Rightarrow> (int \<times> nat) list \<Rightarrow> GlyphInfo list" where
  "units fnt endIndex state lastc [] = emit fnt state lastc 0 0 endIndex []"
| "units fnt endIndex state lastc (ci # cs) =
     emit fnt state lastc (fst ci) (variationState (fst ci)) (int (snd ci) - 1) []
       @ units fnt endIndex (variationState (fst ci)) (fst ci) cs"

text \<open>A unit without its offset: the glyph id and the code points.\<close>

definition unitShape :: "GlyphInfo \<Rightarrow> nat \<times> int list" where
  "unitShape g = (gid g, codePoints g)"

fun shapes :: "Font \<Rightarrow> int \<Rightarrow> int \<Rightarrow> int list \<Rightarrow> (nat \<times> int list) list" where
  "shapes fnt state lastc [] = map unitShape (emit fnt state lastc 0 0 0 [])"
| "shapes fnt state lastc (c # cs) =
     map unitShape (emit fnt state lastc c (variationState c) 0 [])
       @ shapes fnt (variationState c) c cs"

text \<open>Whether a sequence of code points starts with a variation selector.\<close>

definition startsWithSelector :: "int list \<Rightarrow> bool" where
  "startsWithSelector cs = (case cs of [] \<Rightarrow> False | c # r \<Rightarrow> variationState c = 1)"

text \<open>The state of the loop after reading the code points \<open>cs\<close> from state \<open>state\<close>.\<close>

definition endState :: "int \<Rightarrow> int list \<Rightarrow> int" where
  "endState state cs = (if cs = [] then state else variationState (last cs))"

text \<open>The feature set a backend position call returned during a call, if one was made.\<close>

fun reported :: "call list \<Rightarrow> string list option" where
  "reported [] = None"
| "reported (CallPosition positioned # cs) = positioned"
| "reported (c # cs) = reported cs"

text \<open>What the backend reports for a script and language (line 205); nothing without a
  backend.\<close>

definition backendFeatures :: "'s LayoutEngine \<Rightarrow> string option \<Rightarrow> string option \<Rightarrow> string list" where
  "backendFeatures L sc la =
     (case engine L of None \<Rightarrow> [] | Some e \<Rightarrow> engineFeatures e (engineState L) sc la)"

text \<open>The gate of the fallback mark positioner, in terms of the engine before the call and
  the feature set \<open>positioned\<close> that the backend's position operation returned (\<open>None\<close> when
  it returned nothing or was not called).\<close>

definition fallbackCondition :: "'s LayoutEngine \<Rightarrow> string list option \<Rightarrow> bool" where
  "fallbackCondition L positioned =
     (positioned = None \<and> (case engine L of None \<Rightarrow> True | Some e \<Rightarrow> fallbackPosition e))"

text \<open>The gate of the legacy kern processor, in terms of the engine before the call, the
  caller's feature argument and the feature set \<open>positioned\<close>: the backend did not report
  kerning, the caller did not switch the tag \<^verbatim>\<open>kern\<close> off, and the font has a kern table.\<close>

definition kernCondition :: "'s LayoutEngine \<Rightarrow> featuresArg \<Rightarrow> string list option \<Rightarrow> bool" where
  "kernCondition L fa positioned =
     ((case positioned of None \<Rightarrow> True | Some tags \<Rightarrow> ''kern'' \<notin> set tags)
      \<and> featureToggles fa ''kern'' \<noteq> Some False \<and> kern (font L))"

text \<open>The contract of the collaborators that adjust positions (section 3: positions are
  changed in place, one per glyph): the position sequence keeps its length.\<close>

definition keepsLength :: "(GlyphInfo list \<Rightarrow> GlyphPosition list \<Rightarrow> GlyphPosition list) \<Rightarrow> bool" where
  "keepsLength f = (\<forall>gs ps. length (f gs ps) = length ps)"

definition positionKeepsLength :: "'s LayoutEngine \<Rightarrow> bool" where
  "positionKeepsLength L =
     (case engine L of
        None \<Rightarrow> True
      | Some e \<Rightarrow>
          (case positionOp e of
             None \<Rightarrow> True
           | Some f \<Rightarrow> \<forall>st run. length (fst (snd (f st run))) = length (positionsOf run)))"

section \<open>Example objects\<close>

definition exampleFont :: Font where
  "exampleFont =
     \<lparr>cmap_lookup = (\<lambda>c v. case v of None \<Rightarrow> nat c | Some s \<Rightarrow> nat c + 1000),
      glyphForCodePoint = (\<lambda>c. \<lparr>glyph_id = nat c, glyph_advanceWidth = 500\<rparr>),
      getGlyph = (\<lambda>g. \<lparr>glyph_id = g, glyph_advanceWidth = 500\<rparr>),
      infoAdvanceWidth = (\<lambda>g. 500),
      morx = False, GSUB = False, GPOS = False, kern = True\<rparr>"

definition exampleCollaborators :: Collaborators where
  "exampleCollaborators =
     \<lparr>forString = (\<lambda>s. ''Latn''), positionGlyphs = (\<lambda>gs ps. ps), kernProcess = (\<lambda>gs ps. ps)\<rparr>"

text \<open>An engine without a backend, on a font with a legacy kern table.\<close>

definition plainEngine :: "unit LayoutEngine" where
  "plainEngine =
     \<lparr>font = exampleFont, engine = None, engineState = (),
      unicodeLayoutEngine = False, kernProcessor = False\<rparr>"

text \<open>A backend with a substitute operation only, which declares no wish for supplementary
  positioning and reports the feature tag \<^verbatim>\<open>kern\<close> twice.\<close>

definition substituteOnly :: "unit Engine" where
  "substituteOnly =
     \<lparr>setupOp = None, substituteOp = Some (\<lambda>st run. (st, glyphs run)), positionOp = None,
      cleanupOp = None, fallbackPosition = False,
      engineFeatures = (\<lambda>st sc la. [''liga'', ''kern'', ''kern''])\<rparr>"

definition substituteOnlyEngine :: "unit LayoutEngine" where
  "substituteOnlyEngine =
     \<lparr>font = exampleFont, engine = Some substituteOnly, engineState = (),
      unicodeLayoutEngine = False, kernProcessor = False\<rparr>"

text \<open>A backend with every operation, whose substitute operation doubles the glyph sequence,
  whose position operation reports that it applied kerning and which declares that it wants
  supplementary positioning.\<close>

definition fullBackend :: "unit Engine" where
  "fullBackend =
     \<lparr>setupOp = Some (\<lambda>st run. st), substituteOp = Some (\<lambda>st run. (st, glyphs run @ glyphs run)),
      positionOp = Some (\<lambda>st run. (st, positionsOf run, Some [''kern''])),
      cleanupOp = Some (\<lambda>st. st), fallbackPosition = True,
      engineFeatures = (\<lambda>st sc la. [''liga'', ''kern''])\<rparr>"

definition fullEngine :: "unit LayoutEngine" where
  "fullEngine =
     \<lparr>font = exampleFont, engine = Some fullBackend, engineState = (),
      unicodeLayoutEngine = False, kernProcessor = False\<rparr>"

text \<open>Two glyphs, the first from U+00AD, and their positions.\<close>

definition exampleGlyphs :: "GlyphInfo list" where
  "exampleGlyphs =
     [\<lparr>gid = 7, codePoints = [0xAD], stringIndex = 0\<rparr>,
      \<lparr>gid = 8, codePoints = [0x41], stringIndex = 1\<rparr>]"

definition examplePositions :: "GlyphPosition list" where
  "examplePositions =
     [\<lparr>xAdvance = 10, yAdvance = 2, xOffset = 3, yOffset = 4\<rparr>,
      \<lparr>xAdvance = 20, yAdvance = 5, xOffset = 6, yOffset = 7\<rparr>]"

section \<open>Facts about the integer operators\<close>

lemma toInt32_id: "- (2 ^ 31) \<le> x \<Longrightarrow> x < 2 ^ 31 \<Longrightarrow> toInt32 x = x"
  unfolding toInt32_def by (simp add: sint_sbintrunc' signed_take_bit_int_eq_self)

lemma js_sar_small: "0 \<le> x \<Longrightarrow> x < 2 ^ 31 \<Longrightarrow> js_sar x n = x div 2 ^ (n mod 32)"
  unfolding js_sar_def by (simp add: toInt32_id drop_bit_eq_div)

lemma plane_of: "0 \<le> x \<Longrightarrow> x < 2 ^ 31 \<Longrightarrow> js_sar x 16 = x div 65536"
  by (simp add: js_sar_small)

lemma high_byte_of: "0 \<le> x \<Longrightarrow> x < 2 ^ 31 \<Longrightarrow> js_sar x 8 = x div 256"
  by (simp add: js_sar_small)

lemma isDefaultIgnorable_sound:
  assumes "isDefaultIgnorable ch"
  shows "ch = 0xAD \<or> ch = 0x34F \<or> ch = 0x61C \<or> (0x17B4 \<le> ch \<and> ch \<le> 0x17B5)
       \<or> (0x180B \<le> ch \<and> ch \<le> 0x180E) \<or> (0x200B \<le> ch \<and> ch \<le> 0x200F)
       \<or> (0x202A \<le> ch \<and> ch \<le> 0x202E) \<or> (0x2060 \<le> ch \<and> ch \<le> 0x206F)
       \<or> (0xFE00 \<le> ch \<and> ch \<le> 0xFE0F) \<or> ch = 0xFEFF \<or> (0xFFF0 \<le> ch \<and> ch \<le> 0xFFF8)
       \<or> (0x1BCA0 \<le> ch \<and> ch \<le> 0x1BCA3) \<or> (0x1D173 \<le> ch \<and> ch \<le> 0x1D17A)
       \<or> (0xE0000 \<le> ch \<and> ch \<le> 0xE0FFF)"
  using assms unfolding isDefaultIgnorable_def Let_def
  by (simp split: if_splits; blast)

lemma isDefaultIgnorable_bmp:
  assumes "0 \<le> ch" "ch < 65536"
  shows "isDefaultIgnorable ch =
     (let hi = ch div 256 in
         if hi = 0x00 then ch = 0x00AD
         else if hi = 0x03 then ch = 0x034F
         else if hi = 0x06 then ch = 0x061C
         else if hi = 0x17 then 0x17B4 \<le> ch \<and> ch \<le> 0x17B5
         else if hi = 0x18 then 0x180B \<le> ch \<and> ch \<le> 0x180E
         else if hi = 0x20 then (0x200B \<le> ch \<and> ch \<le> 0x200F) \<or> (0x202A \<le> ch \<and> ch \<le> 0x202E)
                                 \<or> (0x2060 \<le> ch \<and> ch \<le> 0x206F)
         else if hi = 0xFE then (0xFE00 \<le> ch \<and> ch \<le> 0xFE0F) \<or> ch = 0xFEFF
         else if hi = 0xFF then 0xFFF0 \<le> ch \<and> ch \<le> 0xFFF8
         else False)"
proof -
  have p: "js_sar ch 16 = 0" using assms by (simp add: plane_of)
  have h: "js_sar ch 8 = ch div 256" using assms by (simp add: high_byte_of)
  show ?thesis unfolding isDefaultIgnorable_def Let_def p h by simp
qed

lemma isDefaultIgnorable_astral:
  assumes "65536 \<le> ch" "ch < 2 ^ 31"
  shows "isDefaultIgnorable ch =
     (let plane = ch div 65536 in
         if plane = 0x01 then (0x1BCA0 \<le> ch \<and> ch \<le> 0x1BCA3) \<or> (0x1D173 \<le> ch \<and> ch \<le> 0x1D17A)
         else if plane = 0x0E then 0xE0000 \<le> ch \<and> ch \<le> 0xE0FFF
         else False)"
proof -
  have p: "js_sar ch 16 = ch div 65536" using assms by (simp add: plane_of)
  have "ch div 65536 \<noteq> 0" using assms by simp
  then show ?thesis unfolding isDefaultIgnorable_def Let_def p by simp
qed

lemma isDefaultIgnorable_complete:
  assumes "ch = 0xAD \<or> ch = 0x34F \<or> ch = 0x61C \<or> (0x17B4 \<le> ch \<and> ch \<le> 0x17B5)
       \<or> (0x180B \<le> ch \<and> ch \<le> 0x180E) \<or> (0x200B \<le> ch \<and> ch \<le> 0x200F)
       \<or> (0x202A \<le> ch \<and> ch \<le> 0x202E) \<or> (0x2060 \<le> ch \<and> ch \<le> 0x206F)
       \<or> (0xFE00 \<le> ch \<and> ch \<le> 0xFE0F) \<or> ch = 0xFEFF \<or> (0xFFF0 \<le> ch \<and> ch \<le> 0xFFF8)
       \<or> (0x1BCA0 \<le> ch \<and> ch \<le> 0x1BCA3) \<or> (0x1D173 \<le> ch \<and> ch \<le> 0x1D17A)
       \<or> (0xE0000 \<le> ch \<and> ch \<le> 0xE0FFF)"
  shows "isDefaultIgnorable ch"
proof (cases "ch < 65536")
  case True
  with assms have r: "0 \<le> ch" "ch < 65536" by auto
  from assms True show ?thesis
    unfolding isDefaultIgnorable_bmp [OF r] Let_def by (elim disjE) auto
next
  case False
  with assms have r: "65536 \<le> ch" "ch < 2 ^ 31" by auto
  from assms False show ?thesis
    unfolding isDefaultIgnorable_astral [OF r] Let_def by (elim disjE) auto
qed

section \<open>Facts about the cluster builder\<close>

text \<open>The loop appends exactly the units of the code points it still has to read.\<close>

lemma emit_append: "emit fnt st l c ns si gs = gs @ emit fnt st l c ns si []"
  by (simp add: emit_def)

lemma decodeAt_bound: "idx < length s \<Longrightarrow> snd (decodeAt s idx) \<le> length s"
  by (auto simp: decodeAt_def Let_def)

lemma codepointsFrom_decodeAt:
  assumes "idx < length s"
  shows "codepointsFrom idx (drop idx s) =
           (fst (decodeAt s idx), idx) # codepointsFrom (snd (decodeAt s idx)) (drop (snd (decodeAt s idx)) s)"
proof (cases "Suc idx < length s")
  case True
  have d1: "drop idx s = s ! idx # s ! Suc idx # drop (Suc (Suc idx)) s"
    using True by (simp add: Cons_nth_drop_Suc)
  have d2: "drop (Suc idx) s = s ! Suc idx # drop (Suc (Suc idx)) s"
    using True by (simp add: Cons_nth_drop_Suc)
  show ?thesis
    unfolding d1 using True by (simp add: decodeAt_def charCodeAt_def Let_def d2)
next
  case False
  with assms have d1: "drop idx s = [s ! idx]" "drop (Suc idx) s = []"
    by (simp_all add: Cons_nth_drop_Suc [symmetric])
  show ?thesis
    unfolding d1 using False assms by (simp add: decodeAt_def charCodeAt_def Let_def d1)
qed

lemma glyphsLoop_units:
  "idx \<le> length s \<Longrightarrow>
     glyphsLoop fnt s idx lastc state gs =
       gs @ units fnt (int (length s) - 1) state lastc (codepointsFrom idx (drop idx s))"
proof (induction fnt s idx lastc state gs rule: glyphsLoop.induct)
  case (1 fnt string idx lastc state gs)
  show ?case
  proof (cases "idx < length string")
    case True
    let ?code = "fst (decodeAt string idx)"
    let ?j = "snd (decodeAt string idx)"
    have sc: "scan string idx = (?code, variationState ?code, ?j)"
      using True by (simp add: scan_def Let_def)
    have jb: "?j \<le> length string" using True by (rule decodeAt_bound)
    have ih: "glyphsLoop fnt string ?j ?code (variationState ?code)
                (emit fnt state lastc ?code (variationState ?code) (int idx - 1) gs) =
              emit fnt state lastc ?code (variationState ?code) (int idx - 1) gs
                @ units fnt (int (length string) - 1) (variationState ?code) ?code
                    (codepointsFrom ?j (drop ?j string))"
      using "1.IH" [OF "1.prems" refl refl refl] jb by (simp add: sc)
    have "glyphsLoop fnt string idx lastc state gs =
            glyphsLoop fnt string ?j ?code (variationState ?code)
                (emit fnt state lastc ?code (variationState ?code) (int idx - 1) gs)"
      using "1.prems" by (subst glyphsLoop.simps) (simp add: sc Let_def)
    also note ih
    finally show ?thesis
      by (simp add: codepointsFrom_decodeAt [OF True] emit_append [of _ _ _ _ _ _ gs])
  next
    case False
    with "1.prems" have e: "idx = length string" by simp
    have sc: "scan string idx = (0, 0, idx + 1)" using False by (simp add: scan_def)
    have "glyphsLoop fnt string idx lastc state gs =
            glyphsLoop fnt string (idx + 1) 0 0 (emit fnt state lastc 0 0 (int idx - 1) gs)"
      using "1.prems" by (subst glyphsLoop.simps) (simp add: sc Let_def)
    also have "\<dots> = emit fnt state lastc 0 0 (int idx - 1) gs"
      using e by (subst glyphsLoop.simps) simp
    finally show ?thesis using e
      by (simp add: emit_append [of _ _ _ _ _ _ gs])
  qed
qed

lemma glyphsForString_units:
  "glyphsForString fnt s = units fnt (int (length s) - 1) (- 1) (- 1) (codepointsFrom 0 s)"
  unfolding glyphsForString_def by (simp add: glyphsLoop_units)

lemma shapes_units: "map unitShape (units fnt e st l cps) = shapes fnt st l (map fst cps)"
  by (induction cps arbitrary: st l) (auto simp: emit_def unitShape_def)

lemma codepointsFrom_codepoints: "map fst (codepointsFrom i s) = codepoints s"
  by (induction i s rule: codepointsFrom.induct) simp_all

text \<open>Cutting the code points of a string into a front and a back part is cutting the string:
  the front and back parts in the claims below range over all such cuts.\<close>

lemma codepoints_split:
  "codepoints s = P @ Q \<Longrightarrow> \<exists>sp sq. s = sp @ sq \<and> codepoints sp = P \<and> codepoints sq = Q"
proof (induction s arbitrary: P rule: codepoints.induct)
  case 1
  then have "[] = [] @ ([] :: 16 word list) \<and> codepoints [] = P \<and> codepoints [] = Q"
    by simp
  then show ?case by blast
next
  case (2 u)
  show ?case
  proof (cases P)
    case Nil
    with "2.prems" have "[u] = [] @ [u] \<and> codepoints [] = P \<and> codepoints [u] = Q"
      by simp
    then show ?thesis by blast
  next
    case (Cons p P')
    with "2.prems" have "[u] = [u] @ [] \<and> codepoints [u] = P \<and> codepoints [] = Q"
      by simp
    then show ?thesis by blast
  qed
next
  case (3 u v r)
  show ?case
  proof (cases P)
    case Nil
    with "3.prems" have "u # v # r = [] @ u # v # r \<and> codepoints [] = P \<and> codepoints (u # v # r) = Q"
      by (simp add: codepoints.simps(1))
    then show ?thesis by blast
  next
    case (Cons p P')
    show ?thesis
    proof (cases "0xd800 \<le> uint u \<and> uint u \<le> 0xdbff \<and> 0xdc00 \<le> uint v \<and> uint v \<le> 0xdfff")
      case True
      have e: "codepoints (u # v # r) = surrogatePair (uint u) (uint v) # codepoints r"
        using True by (simp add: codepoints.simps(3))
      from "3.prems" Cons have p: "p = surrogatePair (uint u) (uint v)" and r: "codepoints r = P' @ Q"
        unfolding e by simp_all
      from "3.IH"(1) [OF True r] obtain sp sq where
        s: "r = sp @ sq" "codepoints sp = P'" "codepoints sq = Q" by blast
      have "codepoints (u # v # sp) = surrogatePair (uint u) (uint v) # codepoints sp"
        using True by (simp add: codepoints.simps(3))
      then have "u # v # r = (u # v # sp) @ sq \<and> codepoints (u # v # sp) = P \<and> codepoints sq = Q"
        using s Cons p by simp
      then show ?thesis by blast
    next
      case False
      have e: "codepoints (u # v # r) = uint u # codepoints (v # r)"
        by (simp only: codepoints.simps(3) False if_False)
      from "3.prems" Cons have p: "p = uint u" and r: "codepoints (v # r) = P' @ Q"
        unfolding e by simp_all
      from "3.IH"(2) [OF False r] obtain sp sq where
        s: "v # r = sp @ sq" "codepoints sp = P'" "codepoints sq = Q" by blast
      have c: "codepoints (u # sp) = uint u # codepoints sp"
      proof (cases sp)
        case Nil
        then show ?thesis by (simp add: codepoints.simps(1,2))
      next
        case c: (Cons w sp')
        with s(1) have "w = v" by simp
        then show ?thesis unfolding c by (simp only: codepoints.simps(3) False if_False)
      qed
      have a1: "u # v # r = (u # sp) @ sq" unfolding append_Cons s(1) [symmetric] ..
      have a2: "codepoints (u # sp) = P" unfolding c s(2) Cons p ..
      have "u # v # r = (u # sp) @ sq \<and> codepoints (u # sp) = P \<and> codepoints sq = Q"
        using a1 a2 s(3) by (intro conjI)
      then show ?thesis by blast
    qed
  qed
qed

lemma shapes_glyphsForString:
  "map unitShape (glyphsForString fnt s) = shapes fnt (- 1) (- 1) (codepoints s)"
  by (simp add: glyphsForString_units shapes_units codepointsFrom_codepoints)

lemma shapes_idle: "st \<noteq> 0 \<Longrightarrow> shapes fnt st l cs = shapes fnt (- 1) l' cs"
  by (cases cs) (simp_all add: emit_def)

lemma shapes_append_base:
  "variationState c = 0 \<Longrightarrow>
     shapes fnt st l (xs @ c # ys) = shapes fnt st l xs @ shapes fnt (- 1) l' (c # ys)"
  by (induction xs arbitrary: st l) (simp_all add: emit_def)

lemma endState_Cons: "endState st (x # xs) = endState (variationState x) xs"
  by (simp add: endState_def)

lemma shapes_append_idle:
  "endState st xs \<noteq> 0 \<Longrightarrow>
     shapes fnt st l (xs @ ys) = shapes fnt st l xs @ shapes fnt (- 1) l' ys"
proof (induction xs arbitrary: st l)
  case Nil
  then have "st \<noteq> 0" by (simp add: endState_def)
  then show ?case using shapes_idle [of st fnt l ys l'] by (simp add: emit_def)
next
  case (Cons x xs)
  then show ?case by (simp add: endState_Cons)
qed

lemma variationState_cases: "variationState c = 0 \<or> variationState c = 1"
  by (simp add: variationState_def)


text \<open>How the units of a code point sequence split around a pair, around two plain code
  points and around a selector without a base.\<close>

lemma shapes_pair:
  assumes "variationState b = 0" and "variationState v = 1"
  shows "shapes fnt (- 1) (- 1) (ps @ b # v # qs) =
           shapes fnt (- 1) (- 1) ps @ [(cmap_lookup fnt b (Some v), [b, v])] @ shapes fnt (- 1) (- 1) qs"
proof -
  have "shapes fnt (- 1) (- 1) (ps @ b # v # qs) =
          shapes fnt (- 1) (- 1) ps @ shapes fnt (- 1) (- 1) (b # v # qs)"
    using assms(1) by (rule shapes_append_base)
  moreover have "shapes fnt (- 1) (- 1) (b # v # qs) =
          [(cmap_lookup fnt b (Some v), [b, v])] @ shapes fnt 1 v qs"
    using assms by (simp add: emit_def unitShape_def)
  moreover have "shapes fnt 1 v qs = shapes fnt (- 1) (- 1) qs"
    by (rule shapes_idle) simp
  ultimately show ?thesis by simp
qed

lemma shapes_plain_start:
  "variationState d = 0 \<Longrightarrow> \<not> startsWithSelector qs \<Longrightarrow>
     shapes fnt 0 d qs = [(cmap_lookup fnt d None, [d])] @ shapes fnt (- 1) (- 1) qs"
  using variationState_cases [of "hd qs"]
  by (cases qs) (auto simp: startsWithSelector_def emit_def unitShape_def)

lemma shapes_two_plain:
  assumes "variationState c = 0" and "variationState d = 0" and "\<not> startsWithSelector qs"
  shows "shapes fnt (- 1) (- 1) (ps @ c # d # qs) =
           shapes fnt (- 1) (- 1) ps @ [(cmap_lookup fnt c None, [c]), (cmap_lookup fnt d None, [d])]
             @ shapes fnt (- 1) (- 1) qs"
proof -
  have "shapes fnt (- 1) (- 1) (ps @ c # d # qs) =
          shapes fnt (- 1) (- 1) ps @ shapes fnt (- 1) (- 1) (c # d # qs)"
    using assms(1) by (rule shapes_append_base)
  moreover have "shapes fnt (- 1) (- 1) (c # d # qs) =
          [(cmap_lookup fnt c None, [c])] @ shapes fnt 0 d qs"
    using assms by (simp add: emit_def unitShape_def)
  ultimately show ?thesis
    using shapes_plain_start [OF assms(2,3), of fnt] by simp
qed

lemma shapes_stray:
  assumes "variationState v = 1" and "ps = [] \<or> variationState (last ps) = 1"
  shows "shapes fnt (- 1) (- 1) (ps @ v # qs) = shapes fnt (- 1) (- 1) ps @ shapes fnt (- 1) (- 1) qs"
proof -
  have e1: "endState (- 1) ps \<noteq> 0" using assms(2) by (auto simp: endState_def)
  have e2: "endState (- 1) (ps @ [v]) \<noteq> 0" using assms(1) by (simp add: endState_def)
  have "shapes fnt (- 1) (- 1) ((ps @ [v]) @ qs) =
          shapes fnt (- 1) (- 1) (ps @ [v]) @ shapes fnt (- 1) (- 1) qs"
    using e2 by (rule shapes_append_idle)
  moreover have "shapes fnt (- 1) (- 1) (ps @ [v]) =
          shapes fnt (- 1) (- 1) ps @ shapes fnt (- 1) (- 1) [v]"
    using e1 by (rule shapes_append_idle)
  moreover have "shapes fnt (- 1) (- 1) [v] = []"
    using assms(1) by (simp add: emit_def)
  ultimately show ?thesis by simp
qed

section \<open>Facts about the phases\<close>

text \<open>The operations each phase invokes and what it leaves unchanged.\<close>

lemma engineSetup_log:
  assumes "engineSetup L run = (L1, lg)"
  shows "font L1 = font L \<and> engine L1 = engine L \<and> (lg = [] \<or> lg = [CallSetup])"
  using assms by (auto simp: engineSetup_def split: option.splits)

lemma substitute_log:
  assumes "substitute L run = (L2, run2, lg)"
  shows "font L2 = font L \<and> engine L2 = engine L \<and> features run2 = features run
         \<and> (lg = [] \<or> lg = [CallSubstitute])"
  using assms by (auto simp: substitute_def split: option.splits prod.splits)

lemma engineCleanup_log:
  assumes "engineCleanup L = (L5, lg)"
  shows "font L5 = font L \<and> (lg = [] \<or> lg = [CallCleanup])"
  using assms by (auto simp: engineCleanup_def split: option.splits)

lemma enginePosition_log:
  assumes "enginePosition L run = (L1, run1, positioned, lg)"
  shows "font L1 = font L \<and> engine L1 = engine L \<and> features run1 = features run
         \<and> glyphs run1 = glyphs run
         \<and> (lg = [] \<and> positioned = None \<or> lg = [CallPosition positioned])"
  using assms by (auto simp: enginePosition_def split: option.splits prod.splits)

lemma position_log:
  assumes "position X L run = (L3, run3, lg)"
  shows "\<exists>positioned plog.
           (plog = [] \<and> positioned = None \<or> plog = [CallPosition positioned])
           \<and> lg = plog @ (if wantsFallback L positioned then [CallFallbackMark] else [])
                    @ (if wantsKern L run positioned then [CallLegacyKern] else [])
           \<and> features run3 =
                (if wantsKern L run positioned then (features run)(''kern'' \<mapsto> True) else features run)
           \<and> glyphs run3 = glyphs run \<and> font L3 = font L \<and> engine L3 = engine L"
proof -
  let ?run0 = "run\<lparr>positions :=
                 Some (map (\<lambda>glyph. GlyphPosition_new (infoAdvanceWidth (font L) glyph)) (glyphs run))\<rparr>"
  obtain L1 run1 positioned plog where ep: "enginePosition L ?run0 = (L1, run1, positioned, plog)"
    by (cases "enginePosition L ?run0") auto
  from enginePosition_log [OF ep]
  have f: "font L1 = font L" "engine L1 = engine L" "features run1 = features run"
      "glyphs run1 = glyphs run" "plog = [] \<and> positioned = None \<or> plog = [CallPosition positioned]"
    by simp_all
  have wf: "wantsFallback L1 positioned = wantsFallback L positioned"
    by (simp add: wantsFallback_def f(2))
  have wkA: "wantsKern (L1\<lparr>unicodeLayoutEngine := True\<rparr>) (run1\<lparr>positions := p\<rparr>) positioned
               = wantsKern L run positioned" for p
    by (simp add: wantsKern_def f(1,3))
  have wkB: "wantsKern L1 run1 positioned = wantsKern L run positioned"
    by (simp add: wantsKern_def f(1,3))
  have "(plog = [] \<and> positioned = None \<or> plog = [CallPosition positioned])
           \<and> lg = plog @ (if wantsFallback L positioned then [CallFallbackMark] else [])
                    @ (if wantsKern L run positioned then [CallLegacyKern] else [])
           \<and> features run3 =
                (if wantsKern L run positioned then (features run)(''kern'' \<mapsto> True) else features run)
           \<and> glyphs run3 = glyphs run \<and> font L3 = font L \<and> engine L3 = engine L"
    using assms f
    by (cases "wantsFallback L positioned"; cases "wantsKern L run positioned";
        clarsimp simp: position_def ep wf wkA wkB)
  then show ?thesis by blast
qed

lemma layoutArgs_features:
  "layoutArgs fa sc la di = (fa1, sc1, la1, di1) \<Longrightarrow> featureToggles fa1 = featureToggles fa"
  by (auto simp: layoutArgs_def featureToggles_def split: featuresArg.splits)

lemma layout_log:
  assumes "glyphsForString (font L) s \<noteq> []"
  shows "\<exists>slog ulog plog clog positioned.
           (slog = [] \<or> slog = [CallSetup]) \<and> (ulog = [] \<or> ulog = [CallSubstitute])
           \<and> (plog = [] \<and> positioned = None \<or> plog = [CallPosition positioned])
           \<and> (clog = [] \<or> clog = [CallCleanup])
           \<and> fst (snd (layout X L s fa sc la di)) =
                slog @ ulog @ plog @ (if fallbackCondition L positioned then [CallFallbackMark] else [])
                  @ (if kernCondition L fa positioned then [CallLegacyKern] else []) @ clog
           \<and> (\<forall>run. snd (snd (layout X L s fa sc la di)) = Inr run \<longrightarrow>
                  features run = (if kernCondition L fa positioned
                                  then (featureToggles fa)(''kern'' \<mapsto> True) else featureToggles fa))"
proof -
  obtain fa1 sc1 la1 di1 where a: "layoutArgs fa sc la di = (fa1, sc1, la1, di1)"
    by (cases "layoutArgs fa sc la di") auto
  define run0 where "run0 = GlyphRun_new (glyphsForString (font L) s) fa1
      (case sc1 of None \<Rightarrow> forString X s | Some tag \<Rightarrow> tag) la1 di1"
  have fr0: "features run0 = featureToggles fa"
    by (simp add: run0_def GlyphRun_new_def layoutArgs_features [OF a])
  obtain L1 slog where s1: "engineSetup L run0 = (L1, slog)"
    by (cases "engineSetup L run0") auto
  obtain L2 run2 ulog where s2: "substitute L1 run0 = (L2, run2, ulog)"
    by (cases "substitute L1 run0") auto
  obtain L3 run3 lg where s3: "position X L2 run2 = (L3, run3, lg)"
    by (cases "position X L2 run2") auto
  obtain L5 clog where s5: "engineCleanup L3 = (L5, clog)"
    by (cases "engineCleanup L3") auto
  note f1 = engineSetup_log [OF s1] and f2 = substitute_log [OF s2] and f5 = engineCleanup_log [OF s5]
  from position_log [OF s3] obtain positioned plog where
      p: "plog = [] \<and> positioned = None \<or> plog = [CallPosition positioned]"
         "lg = plog @ (if wantsFallback L2 positioned then [CallFallbackMark] else [])
                    @ (if wantsKern L2 run2 positioned then [CallLegacyKern] else [])"
         "features run3 =
            (if wantsKern L2 run2 positioned then (features run2)(''kern'' \<mapsto> True) else features run2)"
    by blast
  have wf: "wantsFallback L2 positioned = fallbackCondition L positioned"
    using f1 f2 by (simp add: wantsFallback_def fallbackCondition_def)
  have wk: "wantsKern L2 run2 positioned = kernCondition L fa positioned"
    using f1 f2 fr0 by (simp add: wantsKern_def kernCondition_def)
  have fr3: "features run3 = (if kernCondition L fa positioned
                                  then (featureToggles fa)(''kern'' \<mapsto> True) else featureToggles fa)"
    using p(3) f2 fr0 by (simp add: wk)
  show ?thesis
  proof (cases "hideDefaultIgnorables (font L3) (glyphs run3) (positionsOf run3)")
    case (Inl e)
    have lg1: "fst (snd (layout X L s fa sc la di)) = slog @ ulog @ lg @ []"
         "snd (snd (layout X L s fa sc la di)) = Inl e"
      using assms by (simp_all add: layout_def a Let_def run0_def [symmetric] s1 s2 s3 Inl)
    show ?thesis
      apply (rule exI [of _ slog], rule exI [of _ ulog], rule exI [of _ plog], rule exI [of _ "[]"],
          rule exI [of _ positioned])
      using lg1 f1 f2 p(1) by (simp add: p(2) wf wk)
  next
    case (Inr r)
    obtain gs4 ps4 where r: "r = (gs4, ps4)" by (cases r) auto
    have lg1: "fst (snd (layout X L s fa sc la di)) = slog @ ulog @ lg @ clog"
         "snd (snd (layout X L s fa sc la di)) =
            Inr (finalMapping (font L5) (run3\<lparr>glyphs := gs4, positions := Some ps4\<rparr>))"
      using assms by (simp_all add: layout_def a Let_def run0_def [symmetric] s1 s2 s3 s5 Inr r)
    show ?thesis
      apply (rule exI [of _ slog], rule exI [of _ ulog], rule exI [of _ plog], rule exI [of _ clog],
          rule exI [of _ positioned])
      using lg1 f1 f2 f5 p(1) fr3 by (simp add: p(2) wf wk finalMapping_def)
  qed
qed

lemma reported_skip: "\<forall>p. CallPosition p \<notin> set a \<Longrightarrow> reported (a @ b) = reported b"
  by (induction a rule: reported.induct) auto

lemma reported_none: "\<forall>p. CallPosition p \<notin> set a \<Longrightarrow> reported a = None"
  using reported_skip [of a "[]"] by simp

lemma layout_log_reported:
  assumes "glyphsForString (font L) s \<noteq> []"
  shows "\<exists>pre post.
           fst (snd (layout X L s fa sc la di)) =
             pre @ (if fallbackCondition L (reported (fst (snd (layout X L s fa sc la di))))
                    then [CallFallbackMark] else [])
                 @ (if kernCondition L fa (reported (fst (snd (layout X L s fa sc la di))))
                    then [CallLegacyKern] else []) @ post
           \<and> CallFallbackMark \<notin> set pre \<and> CallLegacyKern \<notin> set pre
           \<and> CallFallbackMark \<notin> set post \<and> CallLegacyKern \<notin> set post
           \<and> (\<forall>run. snd (snd (layout X L s fa sc la di)) = Inr run \<longrightarrow>
                  features run =
                    (if kernCondition L fa (reported (fst (snd (layout X L s fa sc la di))))
                     then (featureToggles fa)(''kern'' \<mapsto> True) else featureToggles fa))"
proof -
  from layout_log [OF assms, of X fa sc la di]
  obtain slog ulog plog clog positioned where
    r: "slog = [] \<or> slog = [CallSetup]" "ulog = [] \<or> ulog = [CallSubstitute]"
       "plog = [] \<and> positioned = None \<or> plog = [CallPosition positioned]"
       "clog = [] \<or> clog = [CallCleanup]"
       "fst (snd (layout X L s fa sc la di)) =
                slog @ ulog @ plog @ (if fallbackCondition L positioned then [CallFallbackMark] else [])
                  @ (if kernCondition L fa positioned then [CallLegacyKern] else []) @ clog"
       "\<forall>run. snd (snd (layout X L s fa sc la di)) = Inr run \<longrightarrow>
                  features run = (if kernCondition L fa positioned
                                  then (featureToggles fa)(''kern'' \<mapsto> True) else featureToggles fa)"
    by blast
  have a: "\<forall>p. CallPosition p \<notin> set (slog @ ulog)" using r(1,2) by auto
  have b: "\<forall>p. CallPosition p \<notin> set ((if fallbackCondition L positioned then [CallFallbackMark] else [])
                  @ (if kernCondition L fa positioned then [CallLegacyKern] else []) @ clog)"
    using r(4) by auto
  have rep: "reported (fst (snd (layout X L s fa sc la di))) = positioned"
  proof -
    have "reported (fst (snd (layout X L s fa sc la di))) =
            reported (plog @ (if fallbackCondition L positioned then [CallFallbackMark] else [])
                  @ (if kernCondition L fa positioned then [CallLegacyKern] else []) @ clog)"
      using reported_skip [OF a] by (simp add: r(5))
    also have "\<dots> = positioned"
      using r(3) reported_none [OF b] by auto
    finally show ?thesis .
  qed
  show ?thesis
    apply (rule exI [of _ "slog @ ulog @ plog"], rule exI [of _ clog])
    using r by (auto simp: rep)
qed

lemma positionsOf_simps:
  "positionsOf (r\<lparr>positions := Some ps\<rparr>) = ps"
  "positionsOf (r\<lparr>positions := Some ps, features := f\<rparr>) = ps"
  by (simp_all add: positionsOf_def)

lemma enginePosition_lengths:
  assumes "enginePosition L run = (L1, run1, positioned, lg)" and "positionKeepsLength L"
  shows "length (positionsOf run1) = length (positionsOf run)"
proof (cases "engine L")
  case None
  with assms(1) show ?thesis by (simp add: enginePosition_def)
next
  case (Some e)
  show ?thesis
  proof (cases "positionOp e")
    case None
    with Some assms(1) show ?thesis by (simp add: enginePosition_def)
  next
    case f: (Some f)
    obtain st ps tags where r: "f (engineState L) run = (st, ps, tags)"
      by (cases "f (engineState L) run") auto
    have "length (fst (snd (f (engineState L) run))) = length (positionsOf run)"
      using assms(2) Some f by (simp add: positionKeepsLength_def)
    then have "length ps = length (positionsOf run)" by (simp add: r)
    moreover have "run1 = run\<lparr>positions := Some ps\<rparr>"
      using assms(1) Some f r by (simp add: enginePosition_def)
    ultimately show ?thesis by (simp add: positionsOf_simps)
  qed
qed

lemma position_lengths:
  assumes "position X L run = (L3, run3, lg)"
    and "keepsLength (positionGlyphs X)" and "keepsLength (kernProcess X)"
    and "positionKeepsLength L"
  shows "length (positionsOf run3) = length (glyphs run)"
proof -
  let ?run0 = "run\<lparr>positions :=
                 Some (map (\<lambda>glyph. GlyphPosition_new (infoAdvanceWidth (font L) glyph)) (glyphs run))\<rparr>"
  obtain L1 run1 positioned plog where ep: "enginePosition L ?run0 = (L1, run1, positioned, plog)"
    by (cases "enginePosition L ?run0") auto
  have l1: "length (positionsOf run1) = length (glyphs run)"
    using enginePosition_lengths [OF ep assms(4)] by (simp add: positionsOf_def)
  have k: "length (positionGlyphs X gs ps) = length ps" "length (kernProcess X gs ps) = length ps"
    for gs ps
    using assms(2,3) by (simp_all add: keepsLength_def)
  have wkA: "wantsKern (L1\<lparr>unicodeLayoutEngine := True\<rparr>) (run1\<lparr>positions := p\<rparr>) positioned
               = wantsKern L1 run1 positioned" for p
    by (simp add: wantsKern_def)
  show ?thesis
    using assms(1) l1
    by (cases "wantsFallback L1 positioned";
        cases "wantsKern L1 run1 positioned";
        clarsimp simp: position_def ep positionsOf_simps k wkA)
qed

lemma positionKeepsLength_engine:
  "engine L' = engine L \<Longrightarrow> positionKeepsLength L' = positionKeepsLength L"
  by (simp add: positionKeepsLength_def)

section \<open>Facts about the hiding pass\<close>

lemma hideLoop_effect:
  "length gs \<le> length ps \<Longrightarrow>
     \<exists>gs' ps'. hideLoop sp i gs ps = Inr (gs', ps') \<and> length gs' = length gs \<and> length ps' = length ps
       \<and> (\<forall>k < length gs. gs' ! k =
             (if i \<le> k \<and> ignorableGlyph (gs ! k) then (gs ! k)\<lparr>gid := sp\<rparr> else gs ! k))
       \<and> (\<forall>k < length ps. ps' ! k =
             (if i \<le> k \<and> k < length gs \<and> ignorableGlyph (gs ! k)
              then (ps ! k)\<lparr>xAdvance := 0, yAdvance := 0\<rparr> else ps ! k))"
proof (induction sp i gs ps rule: hideLoop.induct)
  case (1 sp i gs ps)
  show ?case
  proof (cases "i < length gs")
    case False
    then show ?thesis by (subst hideLoop.simps) simp
  next
    case inb: True
    show ?thesis
    proof (cases "ignorableGlyph (gs ! i)")
      case False
      from "1.IH"(2) [OF inb False "1.prems"]
      obtain gs' ps' where r: "hideLoop sp (Suc i) gs ps = Inr (gs', ps')"
          "length gs' = length gs" "length ps' = length ps"
          "\<forall>k < length gs. gs' ! k =
             (if Suc i \<le> k \<and> ignorableGlyph (gs ! k) then (gs ! k)\<lparr>gid := sp\<rparr> else gs ! k)"
          "\<forall>k < length ps. ps' ! k =
             (if Suc i \<le> k \<and> k < length gs \<and> ignorableGlyph (gs ! k)
              then (ps ! k)\<lparr>xAdvance := 0, yAdvance := 0\<rparr> else ps ! k)"
        by blast
      have step: "hideLoop sp i gs ps = hideLoop sp (Suc i) gs ps"
        using inb False by (subst hideLoop.simps) simp
      have g: "gs' ! k = (if i \<le> k \<and> ignorableGlyph (gs ! k) then (gs ! k)\<lparr>gid := sp\<rparr> else gs ! k)"
        if "k < length gs" for k
        using r(4) that False by (cases "k = i") auto
      have p: "ps' ! k = (if i \<le> k \<and> k < length gs \<and> ignorableGlyph (gs ! k)
              then (ps ! k)\<lparr>xAdvance := 0, yAdvance := 0\<rparr> else ps ! k)"
        if "k < length ps" for k
        using r(5) that False by (cases "k = i") auto
      show ?thesis
        unfolding step using r(1,2,3) g p by simp
    next
      case True
      let ?gs = "gs[i := (gs ! i)\<lparr>gid := sp\<rparr>]"
      let ?ps = "ps[i := (ps ! i)\<lparr>xAdvance := 0, yAdvance := 0\<rparr>]"
      have inp: "i < length ps" using inb "1.prems" by simp
      have len: "length ?gs \<le> length ?ps" using "1.prems" by simp
      from "1.IH"(1) [OF inb True inp len]
      obtain gs' ps' where r: "hideLoop sp (Suc i) ?gs ?ps = Inr (gs', ps')"
          "length gs' = length gs" "length ps' = length ps"
          "\<forall>k < length gs. gs' ! k =
             (if Suc i \<le> k \<and> ignorableGlyph (?gs ! k) then (?gs ! k)\<lparr>gid := sp\<rparr> else ?gs ! k)"
          "\<forall>k < length ps. ps' ! k =
             (if Suc i \<le> k \<and> k < length gs \<and> ignorableGlyph (?gs ! k)
              then (?ps ! k)\<lparr>xAdvance := 0, yAdvance := 0\<rparr> else ?ps ! k)"
        by auto
      have step: "hideLoop sp i gs ps = hideLoop sp (Suc i) ?gs ?ps"
        using inb True inp by (subst hideLoop.simps) simp
      have g: "gs' ! k = (if i \<le> k \<and> ignorableGlyph (gs ! k) then (gs ! k)\<lparr>gid := sp\<rparr> else gs ! k)"
        if "k < length gs" for k
        using r(4) that True by (cases "k = i") (auto simp: nth_list_update)
      have p: "ps' ! k = (if i \<le> k \<and> k < length gs \<and> ignorableGlyph (gs ! k)
              then (ps ! k)\<lparr>xAdvance := 0, yAdvance := 0\<rparr> else ps ! k)"
        if "k < length ps" for k
        using r(5) that True inb by (cases "k = i") (auto simp: nth_list_update)
      show ?thesis
        unfolding step using r(1,2,3) g p by simp
    qed
  qed
qed

lemmas eval_defs = layout_def layoutArgs_def Let_def glyphsForString_units emit_def variationState_def
  GlyphRun_new_def featureToggles_def engineSetup_def substitute_def position_def enginePosition_def
  wantsFallback_def wantsKern_def positionsOf_def hideDefaultIgnorables_def hideLoop.simps
  ignorableGlyph_def isDefaultIgnorable_def js_sar_def toInt32_def engineCleanup_def finalMapping_def
  emptyRun_def GlyphPosition_new_def
  exampleFont_def exampleCollaborators_def plainEngine_def substituteOnly_def substituteOnlyEngine_def
  fullBackend_def fullEngine_def

section \<open>Claims\<close>

text \<open>
  C1 (amended). For every layout call whose string yields at least one unit, the legacy kern
  processor runs if and only if the feature set that the backend's position operation
  returned does not include \<^verbatim>\<open>kern\<close> (also when no position operation ran or it returned nothing),
  the caller has not switched the tag \<^verbatim>\<open>kern\<close> off, and the font has a kern table
  (\<open>kernCondition\<close>); it runs at most once; when it runs, the returned run has the tag \<^verbatim>\<open>kern\<close>
  switched on; and when the backend reported kerning it does not run.
\<close>

theorem legacy_kern_gate:
  assumes "glyphsForString (font L) s \<noteq> []"
  shows "(CallLegacyKern \<in> set (fst (snd (layout X L s fa sc la di))) \<longleftrightarrow>
            kernCondition L fa (reported (fst (snd (layout X L s fa sc la di)))))
         \<and> count_list (fst (snd (layout X L s fa sc la di))) CallLegacyKern \<le> 1
         \<and> (CallLegacyKern \<in> set (fst (snd (layout X L s fa sc la di))) \<longrightarrow>
              (\<forall>run. snd (snd (layout X L s fa sc la di)) = Inr run \<longrightarrow>
                 features run ''kern'' = Some True))"
proof -
  from layout_log_reported [OF assms, of X fa sc la di]
  obtain pre post where
    r: "fst (snd (layout X L s fa sc la di)) =
             pre @ (if fallbackCondition L (reported (fst (snd (layout X L s fa sc la di))))
                    then [CallFallbackMark] else [])
                 @ (if kernCondition L fa (reported (fst (snd (layout X L s fa sc la di))))
                    then [CallLegacyKern] else []) @ post"
       "CallLegacyKern \<notin> set pre" "CallLegacyKern \<notin> set post"
       "\<forall>run. snd (snd (layout X L s fa sc la di)) = Inr run \<longrightarrow>
                  features run =
                    (if kernCondition L fa (reported (fst (snd (layout X L s fa sc la di))))
                     then (featureToggles fa)(''kern'' \<mapsto> True) else featureToggles fa)"
    by blast
  define lg where "lg = fst (snd (layout X L s fa sc la di))"
  have c: "count_list pre CallLegacyKern = 0" "count_list post CallLegacyKern = 0"
    using r(2,3) by (simp_all add: count_list_0_iff)
  have m: "CallLegacyKern \<in> set lg \<longleftrightarrow> kernCondition L fa (reported lg)"
    using r(2,3) by (subst lg_def, subst r(1)) (simp add: lg_def)
  have n: "count_list lg CallLegacyKern \<le> 1"
    using c by (subst lg_def, subst r(1)) simp
  have f: "CallLegacyKern \<in> set lg \<longrightarrow>
              (\<forall>run. snd (snd (layout X L s fa sc la di)) = Inr run \<longrightarrow> features run ''kern'' = Some True)"
    using r(4) m by (simp add: lg_def)
  from m n f show ?thesis unfolding lg_def by blast
qed

text \<open>The theorem without a backend on a font with a kern table, where the processor runs, and
  with a backend that reports kerning, where it does not.\<close>

theorem legacy_kern_gate_witness:
  "glyphsForString (font plainEngine) [0x41] \<noteq> []
   \<and> kernCondition plainEngine FeaturesUndefined
        (reported (fst (snd (layout exampleCollaborators plainEngine [0x41] FeaturesUndefined None None None))))
   \<and> CallLegacyKern \<in> set (fst (snd (layout exampleCollaborators plainEngine [0x41] FeaturesUndefined None None None)))
   \<and> glyphsForString (font fullEngine) [0x41] \<noteq> []
   \<and> reported (fst (snd (layout exampleCollaborators fullEngine [0x41] FeaturesUndefined None None None)))
        = Some [''kern'']
   \<and> kern (font fullEngine)
   \<and> CallLegacyKern \<notin> set (fst (snd (layout exampleCollaborators fullEngine [0x41] FeaturesUndefined None None None)))"
proof -
  have g: "glyphsForString (font plainEngine) [0x41] \<noteq> []" "glyphsForString (font fullEngine) [0x41] \<noteq> []"
    by (simp_all add: glyphsForString_units emit_def variationState_def)
  have l1: "fst (snd (layout exampleCollaborators plainEngine [0x41] FeaturesUndefined None None None))
     = [CallFallbackMark, CallLegacyKern]"
    by (simp add: eval_defs)
  have l2: "fst (snd (layout exampleCollaborators fullEngine [0x41] FeaturesUndefined None None None))
     = [CallSetup, CallSubstitute, CallPosition (Some [''kern'']), CallCleanup]"
    by (simp add: eval_defs)
  have k: "kern (font fullEngine)" "kern (font plainEngine)"
    by (simp_all add: fullEngine_def plainEngine_def exampleFont_def)
  from legacy_kern_gate [OF g(1), of exampleCollaborators FeaturesUndefined None None None]
       legacy_kern_gate [OF g(2), of exampleCollaborators FeaturesUndefined None None None]
       g k
  show ?thesis
    by (simp add: l1 l2 kernCondition_def)
qed

text \<open>
  C1 as stated fails on the non-empty string U+FE0F: the cluster builder drops the selector,
  \<open>layout\<close> returns early with no glyphs, and the legacy kern processor does not run although
  no backend reported kerning, the caller did not switch kerning off and the font has a kern
  table.
\<close>

theorem legacy_kern_counterexample:
  "[0xFE0F] \<noteq> ([] :: 16 word list)
   \<and> kernCondition plainEngine FeaturesUndefined
        (reported (fst (snd (layout exampleCollaborators plainEngine [0xFE0F] FeaturesUndefined None None None))))
   \<and> CallLegacyKern \<notin> set (fst (snd (layout exampleCollaborators plainEngine [0xFE0F] FeaturesUndefined None None None)))
   \<and> fst (snd (layout exampleCollaborators plainEngine [0xFE0F] FeaturesUndefined None None None)) = []"
  by (simp add: eval_defs kernCondition_def)

text \<open>
  C2 (amended). For every layout call whose string yields at least one unit, the fallback
  mark positioner runs if and only if the backend's position operation returned no feature
  set (there is no such operation, or it returned nothing) and, besides, no backend is
  selected or the backend declares that it wants supplementary positioning
  (\<open>fallbackCondition\<close>); it runs at most once. So it does not run when the position operation
  returned a feature set.
\<close>

theorem fallback_mark_gate:
  assumes "glyphsForString (font L) s \<noteq> []"
  shows "(CallFallbackMark \<in> set (fst (snd (layout X L s fa sc la di))) \<longleftrightarrow>
            fallbackCondition L (reported (fst (snd (layout X L s fa sc la di)))))
         \<and> count_list (fst (snd (layout X L s fa sc la di))) CallFallbackMark \<le> 1"
proof -
  from layout_log_reported [OF assms, of X fa sc la di]
  obtain pre post where
    r: "fst (snd (layout X L s fa sc la di)) =
             pre @ (if fallbackCondition L (reported (fst (snd (layout X L s fa sc la di))))
                    then [CallFallbackMark] else [])
                 @ (if kernCondition L fa (reported (fst (snd (layout X L s fa sc la di))))
                    then [CallLegacyKern] else []) @ post"
       "CallFallbackMark \<notin> set pre" "CallFallbackMark \<notin> set post"
    by blast
  define lg where "lg = fst (snd (layout X L s fa sc la di))"
  have c: "count_list pre CallFallbackMark = 0" "count_list post CallFallbackMark = 0"
    using r(2,3) by (simp_all add: count_list_0_iff)
  have m: "CallFallbackMark \<in> set lg \<longleftrightarrow> fallbackCondition L (reported lg)"
    using r(2,3) by (subst lg_def, subst r(1)) (simp add: lg_def)
  have n: "count_list lg CallFallbackMark \<le> 1"
    using c by (subst lg_def, subst r(1)) simp
  from m n show ?thesis unfolding lg_def by blast
qed

text \<open>The theorem without a backend, where the positioner runs, and with a backend whose
  position operation returns a feature set, where it does not.\<close>

theorem fallback_mark_gate_witness:
  "glyphsForString (font plainEngine) [0x41] \<noteq> []
   \<and> fallbackCondition plainEngine
        (reported (fst (snd (layout exampleCollaborators plainEngine [0x41] FeaturesUndefined None None None))))
   \<and> CallFallbackMark \<in> set (fst (snd (layout exampleCollaborators plainEngine [0x41] FeaturesUndefined None None None)))
   \<and> glyphsForString (font fullEngine) [0x41] \<noteq> []
   \<and> reported (fst (snd (layout exampleCollaborators fullEngine [0x41] FeaturesUndefined None None None)))
        = Some [''kern'']
   \<and> CallFallbackMark \<notin> set (fst (snd (layout exampleCollaborators fullEngine [0x41] FeaturesUndefined None None None)))"
proof -
  have g: "glyphsForString (font plainEngine) [0x41] \<noteq> []" "glyphsForString (font fullEngine) [0x41] \<noteq> []"
    by (simp_all add: glyphsForString_units emit_def variationState_def)
  have l1: "fst (snd (layout exampleCollaborators plainEngine [0x41] FeaturesUndefined None None None))
     = [CallFallbackMark, CallLegacyKern]"
    by (simp add: eval_defs)
  have l2: "fst (snd (layout exampleCollaborators fullEngine [0x41] FeaturesUndefined None None None))
     = [CallSetup, CallSubstitute, CallPosition (Some [''kern'']), CallCleanup]"
    by (simp add: eval_defs)
  from fallback_mark_gate [OF g(1), of exampleCollaborators FeaturesUndefined None None None]
       fallback_mark_gate [OF g(2), of exampleCollaborators FeaturesUndefined None None None]
       g
  show ?thesis
    by (simp add: l1 l2 fallbackCondition_def)
qed

text \<open>
  C2 as stated fails in three ways: a backend without a position operation that does not
  declare the wish for supplementary positioning gets no fallback; a backend that declares
  the wish but whose position operation returned a feature set gets none; and on the
  non-empty string U+FE0F nothing runs at all.
\<close>

theorem fallback_mark_counterexample:
  "engine substituteOnlyEngine = Some substituteOnly \<and> positionOp substituteOnly = None
   \<and> glyphsForString (font substituteOnlyEngine) [0x41] \<noteq> []
   \<and> fst (snd (layout exampleCollaborators substituteOnlyEngine [0x41] FeaturesUndefined None None None))
        = [CallSubstitute, CallLegacyKern]
   \<and> engine fullEngine = Some fullBackend \<and> fallbackPosition fullBackend
   \<and> glyphsForString (font fullEngine) [0x41] \<noteq> []
   \<and> fst (snd (layout exampleCollaborators fullEngine [0x41] FeaturesUndefined None None None))
        = [CallSetup, CallSubstitute, CallPosition (Some [''kern'']), CallCleanup]
   \<and> [0xFE0F] \<noteq> ([] :: 16 word list) \<and> engine plainEngine = None
   \<and> fst (snd (layout exampleCollaborators plainEngine [0xFE0F] FeaturesUndefined None None None)) = []"
  by (simp add: eval_defs)

text \<open>
  C3 (amended). For every input string that yields at least one unit, and collaborators that
  keep the length of the position sequence they adjust, the layout call returns a run whose
  glyph sequence, position sequence and source-offset sequence have the same length, whatever
  glyph sequence the backend's substitute phase produced.
\<close>

theorem layout_lengths:
  assumes "glyphsForString (font L) s \<noteq> []"
    and "keepsLength (positionGlyphs X)" and "keepsLength (kernProcess X)"
    and "positionKeepsLength L"
  shows "\<exists>run ps si. snd (snd (layout X L s fa sc la di)) = Inr run
           \<and> positions run = Some ps \<and> stringIndices run = Some si
           \<and> length ps = length (glyphs run) \<and> length si = length (glyphs run)"
proof -
  obtain fa1 sc1 la1 di1 where a: "layoutArgs fa sc la di = (fa1, sc1, la1, di1)"
    by (cases "layoutArgs fa sc la di") auto
  define run0 where "run0 = GlyphRun_new (glyphsForString (font L) s) fa1
      (case sc1 of None \<Rightarrow> forString X s | Some tag \<Rightarrow> tag) la1 di1"
  obtain L1 slog where s1: "engineSetup L run0 = (L1, slog)"
    by (cases "engineSetup L run0") auto
  obtain L2 run2 ulog where s2: "substitute L1 run0 = (L2, run2, ulog)"
    by (cases "substitute L1 run0") auto
  obtain L3 run3 lg where s3: "position X L2 run2 = (L3, run3, lg)"
    by (cases "position X L2 run2") auto
  obtain L5 clog where s5: "engineCleanup L3 = (L5, clog)"
    by (cases "engineCleanup L3") auto
  have e2: "engine L2 = engine L"
    using engineSetup_log [OF s1] substitute_log [OF s2] by simp
  have pk: "positionKeepsLength L2"
    using assms(4) positionKeepsLength_engine [OF e2] by simp
  have g3: "glyphs run3 = glyphs run2" using position_log [OF s3] by blast
  have l3: "length (glyphs run3) \<le> length (positionsOf run3)"
    using position_lengths [OF s3 assms(2,3) pk] g3 by simp
  from hideLoop_effect [OF l3, of "glyph_id (glyphForCodePoint (font L3) 0x20)" 0]
  obtain gs4 ps4 where h: "hideDefaultIgnorables (font L3) (glyphs run3) (positionsOf run3) = Inr (gs4, ps4)"
      "length gs4 = length (glyphs run3)" "length ps4 = length (positionsOf run3)"
    by (auto simp: hideDefaultIgnorables_def)
  have res: "snd (snd (layout X L s fa sc la di)) =
            Inr (finalMapping (font L5) (run3\<lparr>glyphs := gs4, positions := Some ps4\<rparr>))"
    using assms(1) by (simp add: layout_def a Let_def run0_def [symmetric] s1 s2 s3 s5 h(1))
  show ?thesis
    unfolding res using h(2,3) position_lengths [OF s3 assms(2,3) pk] g3
    by (simp add: finalMapping_def)
qed

text \<open>The theorem at the string A U+00AD with a backend that has every operation.\<close>

theorem layout_lengths_witness:
  "glyphsForString (font fullEngine) [0x41, 0xAD] \<noteq> []
   \<and> keepsLength (positionGlyphs exampleCollaborators) \<and> keepsLength (kernProcess exampleCollaborators)
   \<and> positionKeepsLength fullEngine
   \<and> (\<exists>run ps si.
         snd (snd (layout exampleCollaborators fullEngine [0x41, 0xAD] FeaturesUndefined None None None)) = Inr run
         \<and> positions run = Some ps \<and> stringIndices run = Some si
         \<and> length ps = length (glyphs run) \<and> length si = length (glyphs run))"
proof -
  have g: "glyphsForString (font fullEngine) [0x41, 0xAD] \<noteq> []"
    by (simp add: glyphsForString_units emit_def variationState_def)
  have k: "keepsLength (positionGlyphs exampleCollaborators)" "keepsLength (kernProcess exampleCollaborators)"
    by (simp_all add: keepsLength_def exampleCollaborators_def)
  have p: "positionKeepsLength fullEngine"
    by (simp add: positionKeepsLength_def fullEngine_def fullBackend_def)
  from layout_lengths [OF g k p, of FeaturesUndefined None None None] g k p
  show ?thesis by simp
qed

text \<open>
  C3 as stated fails on the non-empty string U+FE0F: the run returned early has empty glyph and
  position sequences and no source-offset sequence, which is only assigned at line 67.
\<close>

theorem layout_lengths_counterexample:
  "[0xFE0F] \<noteq> ([] :: 16 word list)
   \<and> snd (snd (layout exampleCollaborators plainEngine [0xFE0F] FeaturesUndefined None None None))
       = Inr \<lparr>glyphs = [], features = Map.empty, script = ''Latn'', language = None,
               direction = None, positions = Some [], stringIndices = None\<rparr>"
  by (simp add: eval_defs)

text \<open>
  C4. \<open>isDefaultIgnorable\<close> depends on its code point alone and is true exactly on
  U+00AD, U+034F, U+061C, U+17B4-U+17B5, U+180B-U+180E, U+200B-U+200F, U+202A-U+202E,
  U+2060-U+206F, U+FE00-U+FE0F, U+FEFF, U+FFF0-U+FFF8, U+1BCA0-U+1BCA3, U+1D173-U+1D17A and
  U+E0000-U+E0FFF, and false on every other value (so at each range's lower bound minus one
  and upper bound plus one); in particular it is false on U+115F, U+1160, U+3164, U+FFA0 and
  U+0041.
\<close>

theorem isDefaultIgnorable_exact:
  "(\<forall>ch. isDefaultIgnorable ch =
      (ch = 0xAD \<or> ch = 0x34F \<or> ch = 0x61C \<or> (0x17B4 \<le> ch \<and> ch \<le> 0x17B5)
       \<or> (0x180B \<le> ch \<and> ch \<le> 0x180E) \<or> (0x200B \<le> ch \<and> ch \<le> 0x200F)
       \<or> (0x202A \<le> ch \<and> ch \<le> 0x202E) \<or> (0x2060 \<le> ch \<and> ch \<le> 0x206F)
       \<or> (0xFE00 \<le> ch \<and> ch \<le> 0xFE0F) \<or> ch = 0xFEFF \<or> (0xFFF0 \<le> ch \<and> ch \<le> 0xFFF8)
       \<or> (0x1BCA0 \<le> ch \<and> ch \<le> 0x1BCA3) \<or> (0x1D173 \<le> ch \<and> ch \<le> 0x1D17A)
       \<or> (0xE0000 \<le> ch \<and> ch \<le> 0xE0FFF)))
   \<and> isDefaultIgnorable 0x115F = False \<and> isDefaultIgnorable 0x1160 = False
   \<and> isDefaultIgnorable 0x3164 = False \<and> isDefaultIgnorable 0xFFA0 = False
   \<and> isDefaultIgnorable 0x0041 = False"
proof -
  have main: "isDefaultIgnorable ch =
      (ch = 0xAD \<or> ch = 0x34F \<or> ch = 0x61C \<or> (0x17B4 \<le> ch \<and> ch \<le> 0x17B5)
       \<or> (0x180B \<le> ch \<and> ch \<le> 0x180E) \<or> (0x200B \<le> ch \<and> ch \<le> 0x200F)
       \<or> (0x202A \<le> ch \<and> ch \<le> 0x202E) \<or> (0x2060 \<le> ch \<and> ch \<le> 0x206F)
       \<or> (0xFE00 \<le> ch \<and> ch \<le> 0xFE0F) \<or> ch = 0xFEFF \<or> (0xFFF0 \<le> ch \<and> ch \<le> 0xFFF8)
       \<or> (0x1BCA0 \<le> ch \<and> ch \<le> 0x1BCA3) \<or> (0x1D173 \<le> ch \<and> ch \<le> 0x1D17A)
       \<or> (0xE0000 \<le> ch \<and> ch \<le> 0xE0FFF))" for ch
    using isDefaultIgnorable_sound [of ch] isDefaultIgnorable_complete [of ch] by blast
  show ?thesis
    by (intro conjI allI) (simp_all only: main, simp_all)
qed

text \<open>
  C5 (the code departs from the claim). The claim: the text offset recorded in a unit is the
  offset at which its cluster begins, for a base encoded as a surrogate pair the offset of
  the high surrogate. The loop records \<^verbatim>\<open>idx - 1\<close> taken when the next code point is about to be
  read, the offset of the last code unit of the base: for U+1F600, encoded D83D DE00 at offsets
  0 and 1, the recorded offset is 1, alone or followed by a variation selector; for a base of
  one code unit it is the offset where the base begins.
\<close>

theorem surrogate_base_offset:
  "glyphsForString fnt [0xD83D, 0xDE00] =
     [\<lparr>gid = cmap_lookup fnt 0x1F600 None, codePoints = [0x1F600], stringIndex = 1\<rparr>]
   \<and> glyphsForString fnt [0xD83D, 0xDE00, 0xFE0F] =
     [\<lparr>gid = cmap_lookup fnt 0x1F600 (Some 0xFE0F), codePoints = [0x1F600, 0xFE0F], stringIndex = 1\<rparr>]
   \<and> glyphsForString fnt [0x41, 0xFE0F] =
     [\<lparr>gid = cmap_lookup fnt 0x41 (Some 0xFE0F), codePoints = [0x41, 0xFE0F], stringIndex = 0\<rparr>]"
  by (simp add: glyphsForString_units emit_def surrogatePair_def js_and_def js_shl_def toInt32_def variationState_def)

text \<open>
  C6 (amended). A code point that is not a variation selector, directly followed by a
  variation selector, yields exactly one unit carrying both code points, with the glyph id of
  the two-argument lookup. Two consecutive code points that are not variation selectors yield
  two separate units of one code point each, with the glyph ids of the one-argument lookup,
  provided the second is not itself directly followed by a variation selector (then it forms
  the pair unit of the first sentence). The units before and after are those of the text
  before and after (\<open>sp\<close> and \<open>sq\<close>, any cut of the string by \<open>codepoints_split\<close>). A code
  point is a variation selector when \<open>variationState\<close> is 1.
\<close>

theorem cluster_pairing:
  "(codepoints s = codepoints sp @ b # v # codepoints sq \<and> variationState b = 0
      \<and> variationState v = 1 \<longrightarrow>
      map unitShape (glyphsForString fnt s) =
        map unitShape (glyphsForString fnt sp) @ [(cmap_lookup fnt b (Some v), [b, v])]
          @ map unitShape (glyphsForString fnt sq))
   \<and> (codepoints s = codepoints sp @ c # d # codepoints sq \<and> variationState c = 0
      \<and> variationState d = 0 \<and> \<not> startsWithSelector (codepoints sq) \<longrightarrow>
      map unitShape (glyphsForString fnt s) =
        map unitShape (glyphsForString fnt sp)
          @ [(cmap_lookup fnt c None, [c]), (cmap_lookup fnt d None, [d])]
          @ map unitShape (glyphsForString fnt sq))"
  by (simp add: shapes_glyphsForString shapes_pair shapes_two_plain)

text \<open>The theorem at the strings A U+FE0F B and A B.\<close>

theorem cluster_pairing_witness:
  "codepoints [0x41, 0xFE0F, 0x42] = codepoints [] @ 0x41 # 0xFE0F # codepoints [0x42]
   \<and> variationState 0x41 = 0 \<and> variationState 0xFE0F = 1
   \<and> map unitShape (glyphsForString exampleFont [0x41, 0xFE0F, 0x42]) =
        [(cmap_lookup exampleFont 0x41 (Some 0xFE0F), [0x41, 0xFE0F])]
          @ map unitShape (glyphsForString exampleFont [0x42])
   \<and> codepoints [0x41, 0x42] = codepoints [] @ 0x41 # 0x42 # codepoints []
   \<and> variationState 0x42 = 0 \<and> \<not> startsWithSelector (codepoints [])
   \<and> map unitShape (glyphsForString exampleFont [0x41, 0x42]) =
        [(cmap_lookup exampleFont 0x41 None, [0x41]), (cmap_lookup exampleFont 0x42 None, [0x42])]"
proof -
  have h1: "codepoints [0x41, 0xFE0F, 0x42] = codepoints [] @ 0x41 # 0xFE0F # codepoints [0x42]"
    by simp
  have h2: "variationState 0x41 = 0" "variationState 0xFE0F = 1" "variationState 0x42 = 0"
    by (simp_all add: variationState_def)
  have h3: "codepoints [0x41, 0x42] = codepoints [] @ 0x41 # 0x42 # codepoints []"
    by simp
  have h4: "\<not> startsWithSelector (codepoints [])"
    by (simp add: startsWithSelector_def)
  have e: "glyphsForString exampleFont [] = []"
    by (simp add: glyphsForString_units emit_def)
  from cluster_pairing [of "[0x41, 0xFE0F, 0x42]" "[]" "0x41" "0xFE0F" "[0x42]" exampleFont]
       cluster_pairing [of "[0x41, 0x42]" "[]" _ _ "[]" exampleFont "0x41" "0x42"]
       h1 h2 h3 h4 e
  show ?thesis by simp
qed

text \<open>
  C6 as stated fails on the string a b U+FE0F: a and b are consecutive and neither is a
  variation selector, yet b is emitted in a unit of two code points, resolved by the
  two-argument lookup.
\<close>

theorem two_plain_counterexample:
  "codepoints [0x61, 0x62, 0xFE0F] = [0x61, 0x62, 0xFE0F]
   \<and> variationState 0x61 = 0 \<and> variationState 0x62 = 0
   \<and> map unitShape (glyphsForString exampleFont [0x61, 0x62, 0xFE0F]) =
        [(cmap_lookup exampleFont 0x61 None, [0x61]),
         (cmap_lookup exampleFont 0x62 (Some 0xFE0F), [0x62, 0xFE0F])]
   \<and> codepoints [0x61, 0x62, 0xFE0F] = codepoints [] @ 0x61 # 0x62 # codepoints [0xFE0F]
   \<and> map unitShape (glyphsForString exampleFont [0x61, 0x62, 0xFE0F]) \<noteq>
        map unitShape (glyphsForString exampleFont [])
          @ [(cmap_lookup exampleFont 0x61 None, [0x61]), (cmap_lookup exampleFont 0x62 None, [0x62])]
          @ map unitShape (glyphsForString exampleFont [0xFE0F])"
  by (simp add: variationState_def glyphsForString_units emit_def unitShape_def
      exampleFont_def)

text \<open>
  C7 (amended). \<open>getAvailableFeatures\<close> returns the tags the backend reports, in the order it
  reports them, with \<^verbatim>\<open>kern\<close> appended if the font has a kern table and the backend's list does
  not contain it. The result has no duplicate tag if the backend's list has none, and it
  contains \<^verbatim>\<open>kern\<close> exactly once if the font has a kern table and the backend reports \<^verbatim>\<open>kern\<close>
  at most once.
\<close>

theorem available_features:
  "getAvailableFeatures L sc la =
      backendFeatures L sc la
        @ (if kern (font L) \<and> ''kern'' \<notin> set (backendFeatures L sc la) then [''kern''] else [])
   \<and> (distinct (backendFeatures L sc la) \<longrightarrow> distinct (getAvailableFeatures L sc la))
   \<and> (kern (font L) \<and> count_list (backendFeatures L sc la) ''kern'' \<le> 1 \<longrightarrow>
         count_list (getAvailableFeatures L sc la) ''kern'' = 1)"
proof -
  have e: "getAvailableFeatures L sc la =
      backendFeatures L sc la
        @ (if kern (font L) \<and> ''kern'' \<notin> set (backendFeatures L sc la) then [''kern''] else [])"
    by (simp add: getAvailableFeatures_def backendFeatures_def Let_def)
  have d: "distinct (backendFeatures L sc la) \<longrightarrow> distinct (getAvailableFeatures L sc la)"
    by (auto simp: e)
  have c: "kern (font L) \<and> count_list (backendFeatures L sc la) ''kern'' \<le> 1 \<longrightarrow>
         count_list (getAvailableFeatures L sc la) ''kern'' = 1"
  proof (cases "''kern'' \<in> set (backendFeatures L sc la)")
    case True
    then have "count_list (backendFeatures L sc la) ''kern'' \<noteq> 0"
      by (simp add: count_list_0_iff)
    with True show ?thesis by (auto simp: e)
  next
    case False
    then show ?thesis by (simp add: e count_list_0_iff)
  qed
  from e d c show ?thesis by blast
qed

text \<open>The theorem for a backend that reports liga and kern, and without a backend.\<close>

theorem available_features_witness:
  "distinct (backendFeatures fullEngine None None) \<and> kern (font fullEngine)
   \<and> count_list (backendFeatures fullEngine None None) ''kern'' \<le> 1
   \<and> getAvailableFeatures fullEngine None None = [''liga'', ''kern'']
   \<and> distinct (getAvailableFeatures fullEngine None None)
   \<and> count_list (getAvailableFeatures fullEngine None None) ''kern'' = 1
   \<and> backendFeatures plainEngine None None = []
   \<and> getAvailableFeatures plainEngine None None = [''kern'']"
proof -
  have b: "backendFeatures fullEngine None None = [''liga'', ''kern'']"
          "backendFeatures plainEngine None None = []"
    by (simp_all add: backendFeatures_def fullEngine_def fullBackend_def plainEngine_def)
  have k: "kern (font fullEngine)" "kern (font plainEngine)"
    by (simp_all add: fullEngine_def plainEngine_def exampleFont_def)
  from available_features [of fullEngine None None] available_features [of plainEngine None None] k
  show ?thesis by (simp add: b)
qed

text \<open>
  C7 as stated fails for a backend that reports a tag twice: the list is passed on as it is,
  so the result has a duplicate and, here, \<^verbatim>\<open>kern\<close> twice.
\<close>

theorem available_features_counterexample:
  "kern (font substituteOnlyEngine)
   \<and> getAvailableFeatures substituteOnlyEngine None None = [''liga'', ''kern'', ''kern'']
   \<and> \<not> distinct (getAvailableFeatures substituteOnlyEngine None None)
   \<and> count_list (getAvailableFeatures substituteOnlyEngine None None) ''kern'' = 2"
  by (simp add: getAvailableFeatures_def substituteOnlyEngine_def substituteOnly_def exampleFont_def)

text \<open>
  C8. In the hiding pass over glyphs that each have a position, every glyph whose first code
  point is default-ignorable gets the glyph id of the font's glyph for U+0020 and x and y
  advance 0, and keeps its code points, its source index and its x and y offset; every other
  glyph and its position are unchanged; both sequences keep their length.
\<close>

theorem hideDefaultIgnorables_effect:
  assumes "length gs \<le> length ps"
  shows "\<exists>gs' ps'. hideDefaultIgnorables fnt gs ps = Inr (gs', ps')
           \<and> length gs' = length gs \<and> length ps' = length ps
           \<and> (\<forall>i < length gs.
                 if ignorableGlyph (gs ! i)
                 then gid (gs' ! i) = glyph_id (glyphForCodePoint fnt 0x20)
                      \<and> codePoints (gs' ! i) = codePoints (gs ! i)
                      \<and> stringIndex (gs' ! i) = stringIndex (gs ! i)
                      \<and> xAdvance (ps' ! i) = 0 \<and> yAdvance (ps' ! i) = 0
                      \<and> xOffset (ps' ! i) = xOffset (ps ! i) \<and> yOffset (ps' ! i) = yOffset (ps ! i)
                 else gs' ! i = gs ! i \<and> ps' ! i = ps ! i)"
proof -
  from hideLoop_effect [OF assms, of "glyph_id (glyphForCodePoint fnt 0x20)" 0]
  obtain gs' ps' where r:
      "hideLoop (glyph_id (glyphForCodePoint fnt 0x20)) 0 gs ps = Inr (gs', ps')"
      "length gs' = length gs" "length ps' = length ps"
      "\<forall>k < length gs. gs' ! k =
         (if ignorableGlyph (gs ! k) then (gs ! k)\<lparr>gid := glyph_id (glyphForCodePoint fnt 0x20)\<rparr>
          else gs ! k)"
      "\<forall>k < length ps. ps' ! k =
         (if k < length gs \<and> ignorableGlyph (gs ! k)
          then (ps ! k)\<lparr>xAdvance := 0, yAdvance := 0\<rparr> else ps ! k)"
    by auto
  have "\<forall>i < length gs.
                 if ignorableGlyph (gs ! i)
                 then gid (gs' ! i) = glyph_id (glyphForCodePoint fnt 0x20)
                      \<and> codePoints (gs' ! i) = codePoints (gs ! i)
                      \<and> stringIndex (gs' ! i) = stringIndex (gs ! i)
                      \<and> xAdvance (ps' ! i) = 0 \<and> yAdvance (ps' ! i) = 0
                      \<and> xOffset (ps' ! i) = xOffset (ps ! i) \<and> yOffset (ps' ! i) = yOffset (ps ! i)
                 else gs' ! i = gs ! i \<and> ps' ! i = ps ! i"
    using r(4,5) assms by auto
  with r(1,2,3) show ?thesis
    by (simp add: hideDefaultIgnorables_def)
qed

text \<open>The theorem at two glyphs, from U+00AD and from A.\<close>

theorem hideDefaultIgnorables_effect_witness:
  "length exampleGlyphs \<le> length examplePositions
   \<and> ignorableGlyph (exampleGlyphs ! 0) \<and> \<not> ignorableGlyph (exampleGlyphs ! 1)
   \<and> hideDefaultIgnorables exampleFont exampleGlyphs examplePositions =
       Inr ([\<lparr>gid = 32, codePoints = [0xAD], stringIndex = 0\<rparr>,
             \<lparr>gid = 8, codePoints = [0x41], stringIndex = 1\<rparr>],
            [\<lparr>xAdvance = 0, yAdvance = 0, xOffset = 3, yOffset = 4\<rparr>,
             \<lparr>xAdvance = 20, yAdvance = 5, xOffset = 6, yOffset = 7\<rparr>])"
proof -
  have l: "length exampleGlyphs \<le> length examplePositions"
    by (simp add: exampleGlyphs_def examplePositions_def)
  have i: "ignorableGlyph (exampleGlyphs ! 0)" "\<not> ignorableGlyph (exampleGlyphs ! 1)"
    by (simp_all add: exampleGlyphs_def ignorableGlyph_def isDefaultIgnorable_def js_sar_def toInt32_def)
  from hideDefaultIgnorables_effect [OF l, of exampleFont]
  obtain gs' ps' where r: "hideDefaultIgnorables exampleFont exampleGlyphs examplePositions = Inr (gs', ps')"
      "length gs' = length exampleGlyphs" "length ps' = length examplePositions"
      "\<forall>i < length exampleGlyphs.
                 if ignorableGlyph (exampleGlyphs ! i)
                 then gid (gs' ! i) = glyph_id (glyphForCodePoint exampleFont 0x20)
                      \<and> codePoints (gs' ! i) = codePoints (exampleGlyphs ! i)
                      \<and> stringIndex (gs' ! i) = stringIndex (exampleGlyphs ! i)
                      \<and> xAdvance (ps' ! i) = 0 \<and> yAdvance (ps' ! i) = 0
                      \<and> xOffset (ps' ! i) = xOffset (examplePositions ! i)
                      \<and> yOffset (ps' ! i) = yOffset (examplePositions ! i)
                 else gs' ! i = exampleGlyphs ! i \<and> ps' ! i = examplePositions ! i"
    by blast
  have n: "length gs' = 2" "length ps' = 2"
    using r(2,3) by (simp_all add: exampleGlyphs_def examplePositions_def)
  from r(4) have r0: "gid (gs' ! 0) = 32 \<and> codePoints (gs' ! 0) = [0xAD] \<and> stringIndex (gs' ! 0) = 0
      \<and> xAdvance (ps' ! 0) = 0 \<and> yAdvance (ps' ! 0) = 0 \<and> xOffset (ps' ! 0) = 3 \<and> yOffset (ps' ! 0) = 4"
    using i(1) by (auto simp: exampleGlyphs_def examplePositions_def exampleFont_def)
  from r(4) have r1: "gs' ! 1 = exampleGlyphs ! 1 \<and> ps' ! 1 = examplePositions ! 1"
    using i(2) by (auto simp: exampleGlyphs_def examplePositions_def)
  have gs: "gs' = [gs' ! 0, gs' ! 1]" using n(1) by (auto simp: list_eq_iff_nth_eq less_Suc_eq numeral_2_eq_2)
  have ps: "ps' = [ps' ! 0, ps' ! 1]" using n(2) by (auto simp: list_eq_iff_nth_eq less_Suc_eq numeral_2_eq_2)
  have g0: "gs' ! 0 = \<lparr>gid = 32, codePoints = [0xAD], stringIndex = 0\<rparr>" using r0 by (cases "gs' ! 0") simp
  have p0: "ps' ! 0 = \<lparr>xAdvance = 0, yAdvance = 0, xOffset = 3, yOffset = 4\<rparr>" using r0 by (cases "ps' ! 0") simp
  show ?thesis
    using l i r(1) r1 g0 p0 gs ps
    by (simp add: exampleGlyphs_def examplePositions_def)
qed

text \<open>
  C9. For the empty string the cluster builder returns no unit, and \<open>layout\<close> returns a run
  with empty glyph and position sequences, leaves the engine as it was and invokes no
  operation of any collaborator (no setup, substitute, position or cleanup).
\<close>

theorem empty_string_layout:
  "glyphsForString (font L) [] = []
   \<and> fst (layout X L [] fa sc la di) = L
   \<and> fst (snd (layout X L [] fa sc la di)) = []
   \<and> (\<exists>run. snd (snd (layout X L [] fa sc la di)) = Inr run \<and> glyphs run = []
         \<and> positions run = Some [])"
proof -
  have e: "glyphsForString (font L) [] = []"
    by (simp add: glyphsForString_units emit_def)
  show ?thesis
    by (simp add: e layout_def Let_def emptyRun_def split: prod.split)
qed

text \<open>
  C10. A variation selector that starts the string or directly follows another variation
  selector produces no unit: the units of the string are the units of the text before it
  followed by the units of the text after it.
\<close>

theorem stray_selector_dropped:
  assumes "codepoints s = codepoints sp @ v # codepoints sq"
    and "variationState v = 1"
    and "codepoints sp = [] \<or> variationState (last (codepoints sp)) = 1"
  shows "map unitShape (glyphsForString fnt s) =
           map unitShape (glyphsForString fnt sp) @ map unitShape (glyphsForString fnt sq)"
  using assms by (simp add: shapes_glyphsForString shapes_stray)

text \<open>The theorem at the string U+FE0F A U+FE0F U+E0100 B, whose U+E0100 follows a variation
  selector.\<close>

theorem stray_selector_dropped_witness:
  "codepoints [0xFE0F, 0x41, 0xFE0F, 0xDB40, 0xDD00, 0x42] =
       codepoints [0xFE0F, 0x41, 0xFE0F] @ 0xE0100 # codepoints [0x42]
   \<and> variationState 0xE0100 = 1
   \<and> variationState (last (codepoints [0xFE0F, 0x41, 0xFE0F])) = 1
   \<and> map unitShape (glyphsForString exampleFont [0xFE0F, 0x41, 0xFE0F, 0xDB40, 0xDD00, 0x42]) =
        [(cmap_lookup exampleFont 0x41 (Some 0xFE0F), [0x41, 0xFE0F]),
         (cmap_lookup exampleFont 0x42 None, [0x42])]"
proof -
  have h1: "codepoints [0xFE0F, 0x41, 0xFE0F, 0xDB40, 0xDD00, 0x42] =
       codepoints [0xFE0F, 0x41, 0xFE0F] @ 0xE0100 # codepoints [0x42]"
    by (simp add: surrogatePair_def js_and_def js_shl_def toInt32_def)
  have h2: "variationState 0xE0100 = 1" by (simp add: variationState_def)
  have h3: "variationState (last (codepoints [0xFE0F, 0x41, 0xFE0F])) = 1"
    by (simp add: variationState_def)
  have e: "map unitShape (glyphsForString exampleFont [0xFE0F, 0x41, 0xFE0F]) =
             [(cmap_lookup exampleFont 0x41 (Some 0xFE0F), [0x41, 0xFE0F])]"
          "map unitShape (glyphsForString exampleFont [0x42]) = [(cmap_lookup exampleFont 0x42 None, [0x42])]"
    by (simp_all add: glyphsForString_units emit_def variationState_def unitShape_def)
  from stray_selector_dropped [OF h1 h2 disjI2 [OF h3], of exampleFont] h1 h2 h3 e
  show ?thesis by simp
qed

end
